theory Spec2Isabelle
  imports Main
begin

section \<open>Text\<close>

text \<open>
  Python's \<open>str\<close> is modelled by \<open>string\<close>, one \<open>char\<close> per code point, for the
  code points below 256 (ASCII and Latin-1). On that range \<open>str.lower\<close>,
  \<open>str.strip\<close>, \<open>str.startswith\<close>, \<open>in\<close>, \<open>str.count\<close>, \<open>str.split\<close> and
  \<open>str.join\<close> are the functions below. The check mark and the cross that open three
  message literals of the source lie outside that range and stand here as their
  UTF-8 bytes.
\<close>

definition is_space :: "char \<Rightarrow> bool" where
  "is_space c = ((of_char c :: nat) \<in> set [9, 10, 11, 12, 13, 28, 29, 30, 31, 32, 133, 160])"

definition strip :: "string \<Rightarrow> string" where
  "strip s = rev (dropWhile is_space (rev (dropWhile is_space s)))"

definition lower_char :: "char \<Rightarrow> char" where
  "lower_char c =
     (let n = (of_char c :: nat)
      in if (65 \<le> n \<and> n \<le> 90) \<or> (192 \<le> n \<and> n \<le> 222 \<and> n \<noteq> 215)
         then char_of (n + 32) else c)"

definition lower :: "string \<Rightarrow> string" where
  "lower s = map lower_char s"

text \<open>\<open>upper\<close> is only ever applied to one of \<open>png\<close>, \<open>svg\<close>, \<open>pdf\<close>.\<close>

definition upper_char :: "char \<Rightarrow> char" where
  "upper_char c =
     (let n = (of_char c :: nat)
      in if 97 \<le> n \<and> n \<le> 122 then char_of (n - 32) else c)"

definition upper :: "string \<Rightarrow> string" where
  "upper s = map upper_char s"

definition startswith :: "string \<Rightarrow> string \<Rightarrow> bool" where
  "startswith s p = (take (length p) s = p)"

definition endswith :: "string \<Rightarrow> string \<Rightarrow> bool" where
  "endswith s p = (length p \<le> length s \<and> drop (length s - length p) s = p)"

text \<open>\<open>contains s p\<close> is Python's \<open>p in s\<close>.\<close>

fun contains :: "string \<Rightarrow> string \<Rightarrow> bool" where
  "contains [] p = (p = [])"
| "contains (c # cs) p = (startswith (c # cs) p \<or> contains cs p)"

text \<open>\<open>s.count(c)\<close> for a single character \<open>c\<close>.\<close>

definition count_char :: "string \<Rightarrow> char \<Rightarrow> int" where
  "count_char s c = int (length (filter (\<lambda>x. x = c) s))"

text \<open>\<open>s.split('\n')\<close>.\<close>

fun split_nl :: "string \<Rightarrow> string list" where
  "split_nl [] = [[]]"
| "split_nl (c # cs) =
     (if c = CHR 0x0A then [] # split_nl cs
      else (case split_nl cs of [] \<Rightarrow> [[c]] | l # ls \<Rightarrow> (c # l) # ls))"

text \<open>\<open>sep.join(xs)\<close>.\<close>

fun join :: "string \<Rightarrow> string list \<Rightarrow> string" where
  "join sep [] = []"
| "join sep [x] = x"
| "join sep (x # y # ys) = x @ sep @ join sep (y # ys)"

text \<open>\<open>str(n)\<close> for an integer: decimal digits, a minus sign when negative.\<close>

definition digit_char :: "int \<Rightarrow> char" where
  "digit_char d = char_of (48 + d)"

function digits :: "int \<Rightarrow> string" where
  "digits n = (if n < 10 then [digit_char n] else digits (n div 10) @ [digit_char (n mod 10)])"
  by pat_completeness auto
termination
  by (relation "measure (\<lambda>n. nat n)") auto

declare digits.simps [simp del]

definition str_int :: "int \<Rightarrow> string" where
  "str_int i = (if i < 0 then CHR ''-'' # digits (- i) else digits i)"

text \<open>The test \<open>not s or not s.strip()\<close>.\<close>

definition blank :: "string \<Rightarrow> bool" where
  "blank s = (s = [] \<or> strip s = [])"

definition check_mark :: string where
  "check_mark = [CHR 0xE2, CHR 0x9C, CHR 0x93]"

definition cross_mark :: string where
  "cross_mark = [CHR 0xE2, CHR 0x9C, CHR 0x97]"

definition apostrophe :: string where
  "apostrophe = [CHR 0x27]"

section \<open>Values, responses, exceptions\<close>

text \<open>
  A response is the dict the tool returns: an association list in the order in
  which the source writes the keys, read with \<open>map_of\<close>.
\<close>

datatype pyval = PBool bool | PStr string | PInt int | PList "string list"

type_synonym response = "(string \<times> pyval) list"

text \<open>
  An exception carries its class, as far as the handlers of the source tell classes
  apart, and the text \<open>str(e)\<close>.
\<close>

datatype exn_class = TimeoutExpired | KeyError | OtherException

datatype exn = Exn exn_class string

fun exn_str :: "exn \<Rightarrow> string" where
  "exn_str (Exn c msg) = msg"

fun exn_cls :: "exn \<Rightarrow> exn_class" where
  "exn_cls (Exn c msg) = c"

section \<open>Helper functions of mermaid\_tools.py\<close>

definition detect_diagram_type :: "string \<Rightarrow> string" where
  "detect_diagram_type code =
     (let code_lower = lower (strip code)
      in if startswith code_lower ''graph '' \<or> startswith code_lower ''flowchart''
           then ''flowchart''
         else if startswith code_lower ''sequencediagram'' then ''sequenceDiagram''
         else if startswith code_lower ''classdiagram'' then ''classDiagram''
         else if startswith code_lower ''erdiagram'' then ''erDiagram''
         else if startswith code_lower ''statediagram'' then ''stateDiagram''
         else if startswith code_lower ''gantt'' then ''gantt''
         else if startswith code_lower ''pie'' then ''pie''
         else if startswith code_lower ''gitgraph'' then ''gitGraph''
         else [])"

definition parse_mermaid_error :: "string \<Rightarrow> string" where
  "parse_mermaid_error error_msg =
     (let error_lower = lower error_msg
      in if contains error_lower ''syntax error''
           then ''Syntax error detected. Check for: missing semicolons, incorrect arrow syntax (use --> or ---), mismatched brackets.''
         else if contains error_lower ''parse error''
           then ''Parse error. Verify diagram type declaration (graph TD, sequenceDiagram, etc.) and node connections.''
         else if contains error_lower ''unexpected''
           then ''Unexpected token found. Check for typos in keywords or special characters.''
         else if contains error_lower ''timeout''
           then ''Rendering timed out. Diagram might be too complex - try simplifying.''
         else ''Check Mermaid syntax at: https://mermaid.js.org/syntax/'')"

section \<open>validate\_mermaid\_syntax\<close>

text \<open>
  The function in two parts: the checks (lines 252 to 284), and the assembly of the
  result dict from what they found (lines 286 to 305).
\<close>

definition validate_result ::
  "string \<Rightarrow> int \<Rightarrow> string list \<Rightarrow> string list \<Rightarrow> string list \<Rightarrow> response" where
  "validate_result diagram_type node_count lines errors warnings =
     (let valid = (length errors = 0)
      in [(''valid'', PBool valid),
          (''diagram_type'', PStr (if diagram_type \<noteq> [] then diagram_type else ''unknown'')),
          (''node_count'', PInt node_count),
          (''line_count'', PInt (int (length lines)))]
         @ (if errors \<noteq> [] then [(''errors'', PList errors)] else [])
         @ (if warnings \<noteq> [] then [(''warnings'', PList warnings)] else [])
         @ (if valid
            then [(''prompt'', PStr (check_mark @ '' Mermaid syntax appears valid. Diagram type: ''
                    @ diagram_type @ '', '' @ str_int node_count @ '' connections found.''))]
            else [(''prompt'', PStr (cross_mark @ '' Mermaid syntax errors detected: ''
                    @ join '', '' errors))]))"

definition validate_mermaid_syntax :: "string \<Rightarrow> response" where
  "validate_mermaid_syntax mermaid_code =
     (if blank mermaid_code then
        [(''valid'', PBool False),
         (''errors'', PList [''Empty diagram code'']),
         (''suggestion'', PStr ''Provide Mermaid diagram syntax'')]
      else
        let diagram_type = detect_diagram_type mermaid_code;
            errors0 = (if diagram_type = []
              then [''Unable to detect diagram type - must start with: graph, flowchart, sequenceDiagram, classDiagram, erDiagram, etc.'']
              else []);
            lines = split_nl (strip mermaid_code);
            warnings0 = (if length lines < 2
              then [''Diagram has only one line - might be incomplete''] else []);
            node_count = int (length (filter (\<lambda>line. contains line ''-->'' \<or> contains line ''---'') lines));
            warnings = warnings0 @ (if node_count = 0 \<and> diagram_type \<in> set [''graph'', ''flowchart'']
              then [''No connections found (-->  or ---) - diagram might be empty''] else []);
            open_brackets = count_char mermaid_code (CHR ''['') + count_char mermaid_code (CHR ''('')
              + count_char mermaid_code (CHR ''{'');
            close_brackets = count_char mermaid_code (CHR '']'') + count_char mermaid_code (CHR '')'')
              + count_char mermaid_code (CHR ''}'');
            errors = errors0 @ (if open_brackets \<noteq> close_brackets
              then [''Mismatched brackets: '' @ str_int open_brackets @ '' open, ''
                      @ str_int close_brackets @ '' closed'']
              else [])
        in validate_result diagram_type node_count lines errors warnings)"

section \<open>get\_diagram\_resource\<close>

text \<open>
  The file system and \<open>base64\<close> are the environment of one call: what
  \<open>Path.exists\<close>, reading the file and encoding answer, each of which may raise.
  \<open>DIAGRAMS_DIR / diagram_name\<close> stays symbolic as \<open>Join\<close>.
\<close>

datatype path = Join string string

definition DIAGRAMS_DIR :: string where
  "DIAGRAMS_DIR = ''/app/data/diagrams''"

record resource_world =
  path_exists :: "path \<Rightarrow> exn + bool"
  read_bytes :: "path \<Rightarrow> exn + nat list"
  b64encode :: "nat list \<Rightarrow> exn + string"

text \<open>The body of the \<open>try\<close> block; \<open>Inl\<close> is an exception raised inside it.\<close>

definition get_diagram_resource_body :: "resource_world \<Rightarrow> string \<Rightarrow> exn + string" where
  "get_diagram_resource_body w diagram_name =
     (let diagram_path = Join DIAGRAMS_DIR diagram_name
      in case path_exists w diagram_path of
           Inl e \<Rightarrow> Inl e
         | Inr False \<Rightarrow> Inr (''Error: Diagram '' @ apostrophe @ diagram_name @ apostrophe @ '' not found'')
         | Inr True \<Rightarrow>
             (case read_bytes w diagram_path of
                Inl e \<Rightarrow> Inl e
              | Inr image_data \<Rightarrow>
                  (case b64encode w image_data of
                     Inl e \<Rightarrow> Inl e
                   | Inr base64_data \<Rightarrow> Inr base64_data)))"

text \<open>The function: \<open>except Exception\<close> turns whatever the body raised into a string.\<close>

definition get_diagram_resource :: "resource_world \<Rightarrow> string \<Rightarrow> exn + string" where
  "get_diagram_resource w diagram_name =
     (case get_diagram_resource_body w diagram_name of
        Inl e \<Rightarrow> Inr (''Error loading diagram: '' @ exn_str e)
      | Inr s \<Rightarrow> Inr s)"

section \<open>generate\_mermaid\_diagram\<close>

subsection \<open>Data\<close>

text \<open>
  The settings are what the lookups in the configuration and in \<open>os.environ\<close> at the
  top of the function (and, for the last two, on the success path) have produced.
\<close>

record settings =
  max_attempts :: int
  output_dir :: string
  max_size :: int
  default_format :: string
  default_theme :: string
  default_background :: string
  public_base_url :: string
  auth_token :: string

record request =
  mermaid_code :: string
  output_format :: string
  filename :: string
  theme :: string
  background :: string
  scale :: int
  width :: int

text \<open>\<open>subprocess.CompletedProcess\<close> with captured text streams.\<close>

record completed =
  returncode :: int
  stderr :: string
  stdout :: string

text \<open>
  The environment of one call: for each effect of the function, whether it raises
  (\<open>Some e\<close>, \<open>Inl e\<close>) and what it returns otherwise.
\<close>

record world =
  mkdir :: "string \<Rightarrow> exn option"
  now :: int
  write_input :: "string \<Rightarrow> string \<Rightarrow> exn option"
  write_puppeteer :: "exn option"
  run :: "string list \<Rightarrow> exn + completed"
  remove_file :: "string \<Rightarrow> exn option"
  getsize :: "string \<Rightarrow> exn + int"

text \<open>
  The state the function changes: the module-level dict \<open>attempt_tracker\<close> and the
  files it writes and removes (path to content).
\<close>

record state =
  attempt_tracker :: "string \<rightharpoonup> int"
  files :: "string \<rightharpoonup> string"

subsection \<open>Library functions\<close>

text \<open>\<open>os.path.join(a, b)\<close> on POSIX.\<close>

definition os_path_join :: "string \<Rightarrow> string \<Rightarrow> string" where
  "os_path_join a b =
     (if startswith b ''/'' then b
      else if a = [] \<or> endswith a ''/'' then a @ b
      else a @ ''/'' @ b)"

text \<open>
  \<open>Path(p).name\<close> for a path whose last component is neither empty nor a dot, as
  that of \<open>output_file\<close> is: the text after the last slash.
\<close>

definition path_name :: "string \<Rightarrow> string" where
  "path_name p = rev (takeWhile (\<lambda>c. c \<noteq> CHR ''/'') (rev p))"

text \<open>\<open>attempt_tracker[key]\<close>, which raises \<open>KeyError\<close> on a missing key.\<close>

definition tracker_item :: "state \<Rightarrow> string \<Rightarrow> exn + int" where
  "tracker_item st key =
     (case attempt_tracker st key of
        None \<Rightarrow> Inl (Exn KeyError (apostrophe @ key @ apostrophe))
      | Some n \<Rightarrow> Inr n)"

text \<open>\<open>attempt_tracker.get(key, 0)\<close>.\<close>

definition tracker_get :: "state \<Rightarrow> string \<Rightarrow> int" where
  "tracker_get st key = (case attempt_tracker st key of None \<Rightarrow> 0 | Some n \<Rightarrow> n)"

text \<open>The output format after lines 55 and 56: the configured default when none is given.\<close>

definition chosen_format :: "settings \<Rightarrow> request \<Rightarrow> string" where
  "chosen_format cfg req =
     (if output_format req = [] then default_format cfg else output_format req)"

definition puppeteer_path :: string where
  "puppeteer_path = ''/tmp/puppeteer-config.json''"

definition dq :: string where
  "dq = [CHR 0x22]"

text \<open>What \<open>json.dump\<close> writes for \<open>puppeteer_config\<close>.\<close>

definition puppeteer_config_json :: string where
  "puppeteer_config_json =
     ''{'' @ dq @ ''args'' @ dq @ '': ['' @ dq @ ''--no-sandbox'' @ dq @ '', ''
       @ dq @ ''--disable-setuid-sandbox'' @ dq @ '', ''
       @ dq @ ''--disable-dev-shm-usage'' @ dq @ '']}''"

subsection \<open>The renderer call (lines 137 to 238)\<close>

definition mmdc_cmd ::
  "string \<Rightarrow> string \<Rightarrow> string \<Rightarrow> string \<Rightarrow> string \<Rightarrow> int \<Rightarrow> int \<Rightarrow> string list" where
  "mmdc_cmd input_file output_file theme_v background_v fmt scale_v width_v =
     [''mmdc'', ''-i'', input_file, ''-o'', output_file, ''-t'', theme_v, ''-b'', background_v]
     @ (if fmt \<in> set [''png'', ''pdf'']
        then [''-s'', str_int scale_v, ''-w'', str_int width_v] else [])
     @ [''-p'', puppeteer_path]"

text \<open>
  The body of the last \<open>try\<close> block (lines 172 to 221). \<open>Inl e\<close> as first component
  is \<open>e\<close> raised inside the block, with the state reached by then.
\<close>

definition render_try ::
  "settings \<Rightarrow> world \<Rightarrow> string list \<Rightarrow> string \<Rightarrow> string \<Rightarrow> string \<Rightarrow> string
     \<Rightarrow> state \<Rightarrow> (exn + response) \<times> state" where
  "render_try cfg w cmd code_hash input_file output_file fmt st =
     (case run w cmd of
        Inl e \<Rightarrow> (Inl e, st)
      | Inr result \<Rightarrow>
          let st1 = (case remove_file w input_file of
                       None \<Rightarrow> st\<lparr>files := (files st)(input_file := None)\<rparr>
                     | Some e \<Rightarrow> st)
          in if returncode result \<noteq> 0 then
               let error_msg = (if stderr result \<noteq> [] then stderr result
                                else if stdout result \<noteq> [] then stdout result
                                else ''Unknown error'')
               in case tracker_item st1 code_hash of
                    Inl e \<Rightarrow> (Inl e, st1)
                  | Inr attempt \<Rightarrow>
                      (Inr [(''success'', PBool False),
                            (''error'', PStr error_msg),
                            (''suggestion'', PStr (parse_mermaid_error error_msg)),
                            (''attempt'', PInt attempt),
                            (''max_attempts'', PInt (max_attempts cfg)),
                            (''prompt'', PStr (''Mermaid syntax error detected (attempt ''
                               @ str_int attempt @ ''/'' @ str_int (max_attempts cfg)
                               @ ''). Please fix the errors and try again.''))], st1)
             else
               let st2 = st1\<lparr>attempt_tracker := (attempt_tracker st1)(code_hash := None)\<rparr>
               in case getsize w output_file of
                    Inl e \<Rightarrow> (Inl e, st2)
                  | Inr file_size \<Rightarrow>
                      let diagram_filename = path_name output_file;
                          image_url = public_base_url cfg @ ''/diagrams/'' @ diagram_filename
                                      @ ''?token='' @ auth_token cfg
                      in (Inr [(''success'', PBool True),
                               (''message'', PStr (check_mark @ '' Generated '' @ upper fmt
                                  @ '' diagram ('' @ str_int file_size @ '' bytes)'')),
                               (''image_url'', PStr image_url),
                               (''file_name'', PStr diagram_filename),
                               (''format'', PStr fmt),
                               (''size_bytes'', PInt file_size)], st2))"

text \<open>
  The two handlers of that block (lines 223 to 238). Each reads
  \<open>attempt_tracker[code_hash]\<close>; a \<open>KeyError\<close> raised there leaves the function.
\<close>

definition render_except ::
  "settings \<Rightarrow> string \<Rightarrow> exn \<Rightarrow> state \<Rightarrow> (exn + response) \<times> state" where
  "render_except cfg code_hash e st =
     (if exn_cls e = TimeoutExpired then
        (case tracker_item st code_hash of
           Inl k \<Rightarrow> (Inl k, st)
         | Inr attempt \<Rightarrow>
             (Inr [(''success'', PBool False),
                   (''error'', PStr ''Diagram generation timed out (30s limit)''),
                   (''suggestion'', PStr ''Diagram is too complex - try simplifying it''),
                   (''attempt'', PInt attempt),
                   (''max_attempts'', PInt (max_attempts cfg))], st))
      else
        (case tracker_item st code_hash of
           Inl k \<Rightarrow> (Inl k, st)
         | Inr attempt \<Rightarrow>
             (Inr [(''success'', PBool False),
                   (''error'', PStr (''Unexpected error: '' @ exn_str e)),
                   (''attempt'', PInt attempt),
                   (''max_attempts'', PInt (max_attempts cfg))], st)))"

definition render ::
  "settings \<Rightarrow> world \<Rightarrow> string list \<Rightarrow> string \<Rightarrow> string \<Rightarrow> string \<Rightarrow> string
     \<Rightarrow> state \<Rightarrow> (exn + response) \<times> state" where
  "render cfg w cmd code_hash input_file output_file fmt st =
     (case render_try cfg w cmd code_hash input_file output_file fmt st of
        (Inl e, st') \<Rightarrow> render_except cfg code_hash e st'
      | (Inr r, st') \<Rightarrow> (Inr r, st'))"

subsection \<open>From the output directory to the renderer (lines 113 to 238)\<close>

text \<open>
  What the function does once the attempt is counted: create the directory, name the
  files, write the scratch file and the puppeteer configuration, and call the
  renderer. An exception of \<open>mkdir\<close> is caught by nothing. While writing the
  puppeteer configuration a failure is logged and dropped.
\<close>

definition write_and_render ::
  "settings \<Rightarrow> world \<Rightarrow> string \<Rightarrow> string \<Rightarrow> string \<Rightarrow> string \<Rightarrow> string
     \<Rightarrow> string \<Rightarrow> int \<Rightarrow> int \<Rightarrow> state \<Rightarrow> (exn + response) \<times> state" where
  "write_and_render cfg w code code_hash filename_r fmt theme_v background_v scale_v width_v st1 =
     (case mkdir w (output_dir cfg) of
        Some e \<Rightarrow> (Inl e, st1)
      | None \<Rightarrow>
          let filename_v = (if filename_r = []
                            then ''diagram_'' @ code_hash @ ''_'' @ str_int (now w)
                            else filename_r);
              input_file = ''/tmp/mermaid_'' @ code_hash @ ''.mmd'';
              output_file = os_path_join (output_dir cfg) (filename_v @ ''.'' @ fmt)
          in
          case write_input w input_file code of
            Some e \<Rightarrow>
              (case tracker_item st1 code_hash of
                 Inl k \<Rightarrow> (Inl k, st1)
               | Inr attempt \<Rightarrow>
                   (Inr [(''success'', PBool False),
                         (''error'', PStr (''Failed to write temp file: '' @ exn_str e)),
                         (''attempt'', PInt attempt),
                         (''max_attempts'', PInt (max_attempts cfg))], st1))
          | None \<Rightarrow>
              let st2 = st1\<lparr>files := (files st1)(input_file \<mapsto> code)\<rparr>;
                  cmd = mmdc_cmd input_file output_file theme_v background_v fmt scale_v width_v;
                  st3 = (case write_puppeteer w of
                           None \<Rightarrow> st2\<lparr>files := (files st2)(puppeteer_path \<mapsto> puppeteer_config_json)\<rparr>
                         | Some e \<Rightarrow> st2)
              in render cfg w cmd code_hash input_file output_file fmt st3)"

subsection \<open>The tool (lines 35 to 238)\<close>

text \<open>
  \<open>fingerprint\<close> stands for \<open>hashlib.md5(mermaid_code.encode()).hexdigest()[:12]\<close>, a
  function of the source text alone. The first component of the result is the dict
  returned (\<open>Inr\<close>) or the exception that leaves the function (\<open>Inl\<close>); the second is
  the state after the call.
\<close>

definition generate_mermaid_diagram ::
  "(string \<Rightarrow> string) \<Rightarrow> settings \<Rightarrow> world \<Rightarrow> request \<Rightarrow> state
     \<Rightarrow> (exn + response) \<times> state" where
  "generate_mermaid_diagram fingerprint cfg w req st =
     (let fmt = chosen_format cfg req;
          theme_v = (if theme req = [] then default_theme cfg else theme req);
          background_v = (if background req = [] then default_background cfg else background req)
      in
      if blank (mermaid_code req) then
        (Inr [(''success'', PBool False),
              (''error'', PStr ''mermaid_code is empty - please provide Mermaid diagram syntax''),
              (''suggestion'', PStr (''Example: graph TD'' @ [CHR 0x0A] @ ''    A[Start] --> B[End]''))],
         st)
      else if int (length (mermaid_code req)) > max_size cfg then
        (Inr [(''success'', PBool False),
              (''error'', PStr (''Diagram code too large ('' @ str_int (int (length (mermaid_code req)))
                 @ '' chars, max '' @ str_int (max_size cfg) @ '')'')),
              (''suggestion'', PStr ''Simplify the diagram or split into multiple diagrams'')],
         st)
      else
        let scale_v = (if scale req \<notin> set [1, 2, 3] then 2 else scale req);
            width_v = (if \<not> (800 \<le> width req \<and> width req \<le> 3200) then 1600 else width req)
        in
        if fmt \<notin> set [''png'', ''svg'', ''pdf''] then
          (Inr [(''success'', PBool False),
                (''error'', PStr (''Invalid output_format: '' @ fmt)),
                (''suggestion'', PStr (''Use '' @ apostrophe @ ''png'' @ apostrophe @ '', ''
                   @ apostrophe @ ''svg'' @ apostrophe @ '', or '' @ apostrophe @ ''pdf'' @ apostrophe))],
           st)
        else
          let code_hash = fingerprint (mermaid_code req);
              attempts = tracker_get st code_hash
          in
          if attempts \<ge> max_attempts cfg then
            (Inr [(''success'', PBool False),
                  (''error'', PStr (''Maximum retry attempts ('' @ str_int (max_attempts cfg) @ '') reached'')),
                  (''suggestion'', PStr ''Unable to generate diagram after multiple attempts. Please verify Mermaid syntax is correct or simplify the diagram.''),
                  (''attempts'', PInt attempts),
                  (''max_attempts'', PInt (max_attempts cfg))],
             st\<lparr>attempt_tracker := (attempt_tracker st)(code_hash := None)\<rparr>)
          else
            write_and_render cfg w (mermaid_code req) code_hash (filename req) fmt theme_v
              background_v scale_v width_v
              (st\<lparr>attempt_tracker := (attempt_tracker st)(code_hash \<mapsto> attempts + 1)\<rparr>))"

subsection \<open>Consecutive calls\<close>

text \<open>
  The same request sent again and again, the \<open>k\<close>-th call (counted from 0) in the
  environment \<open>ws k\<close>: the state before it, and what it returns.
\<close>

primrec after_calls ::
  "(string \<Rightarrow> string) \<Rightarrow> settings \<Rightarrow> (nat \<Rightarrow> world) \<Rightarrow> request \<Rightarrow> state \<Rightarrow> nat \<Rightarrow> state" where
  "after_calls fp cfg ws req st 0 = st"
| "after_calls fp cfg ws req st (Suc k) =
     snd (generate_mermaid_diagram fp cfg (ws k) req (after_calls fp cfg ws req st k))"

definition nth_call ::
  "(string \<Rightarrow> string) \<Rightarrow> settings \<Rightarrow> (nat \<Rightarrow> world) \<Rightarrow> request \<Rightarrow> state \<Rightarrow> nat
     \<Rightarrow> exn + response" where
  "nth_call fp cfg ws req st k =
     fst (generate_mermaid_diagram fp cfg (ws k) req (after_calls fp cfg ws req st k))"

subsection \<open>Concrete inputs\<close>

text \<open>
  Inputs at which the theorems below are evaluated. \<open>demo_fingerprint\<close> is a stand-in
  for the digest: any function of the source text will do.
\<close>

definition demo_fingerprint :: "string \<Rightarrow> string" where
  "demo_fingerprint s = take 12 s"

definition demo_cfg :: settings where
  "demo_cfg = \<lparr>max_attempts = 2, output_dir = ''/app/data/diagrams'', max_size = 50000,
     default_format = ''svg'', default_theme = ''default'', default_background = ''white'',
     public_base_url = ''http://localhost:8401'', auth_token = ''avicohen''\<rparr>"

definition demo_req :: request where
  "demo_req = \<lparr>mermaid_code = ''graph TD; A-->B'', output_format = ''png'', filename = ''d'',
     theme = [], background = [], scale = 2, width = 1600\<rparr>"

definition empty_state :: state where
  "empty_state = \<lparr>attempt_tracker = Map.empty, files = Map.empty\<rparr>"

text \<open>The renderer exits with code 1 and a message on its error stream.\<close>

definition world_failing :: world where
  "world_failing = \<lparr>mkdir = (\<lambda>d. None), now = 1700000000, write_input = (\<lambda>p c. None),
     write_puppeteer = None,
     run = (\<lambda>cmd. Inr \<lparr>returncode = 1, stderr = ''Parse error on line 2'', stdout = []\<rparr>),
     remove_file = (\<lambda>p. None), getsize = (\<lambda>p. Inr 1234)\<rparr>"

text \<open>The same in every call of a series.\<close>

definition worlds_failing :: "nat \<Rightarrow> world" where
  "worlds_failing k = world_failing"

text \<open>The renderer exits with code 0 and has written a warning to its error stream.\<close>

definition world_ok_with_warning :: world where
  "world_ok_with_warning = \<lparr>mkdir = (\<lambda>d. None), now = 1700000000, write_input = (\<lambda>p c. None),
     write_puppeteer = None,
     run = (\<lambda>cmd. Inr \<lparr>returncode = 0, stderr = ''warning: deprecated'', stdout = []\<rparr>),
     remove_file = (\<lambda>p. None), getsize = (\<lambda>p. Inr 1234)\<rparr>"

text \<open>The renderer runs into the timeout of 30 seconds.\<close>

definition world_timeout :: world where
  "world_timeout = \<lparr>mkdir = (\<lambda>d. None), now = 1700000000, write_input = (\<lambda>p c. None),
     write_puppeteer = None,
     run = (\<lambda>cmd. Inl (Exn TimeoutExpired ''Command timed out after 30 seconds'')),
     remove_file = (\<lambda>p. None), getsize = (\<lambda>p. Inr 1234)\<rparr>"

text \<open>The output directory cannot be created.\<close>

definition world_no_mkdir :: world where
  "world_no_mkdir = \<lparr>mkdir = (\<lambda>d. Some (Exn OtherException ''[Errno 13] Permission denied'')),
     now = 1700000000, write_input = (\<lambda>p c. None), write_puppeteer = None,
     run = (\<lambda>cmd. Inr \<lparr>returncode = 0, stderr = [], stdout = []\<rparr>),
     remove_file = (\<lambda>p. None), getsize = (\<lambda>p. Inr 1234)\<rparr>"

text \<open>The renderer exits with code 0, but the output file is not there.\<close>

definition world_no_output :: world where
  "world_no_output = \<lparr>mkdir = (\<lambda>d. None), now = 1700000000, write_input = (\<lambda>p c. None),
     write_puppeteer = None,
     run = (\<lambda>cmd. Inr \<lparr>returncode = 0, stderr = [], stdout = []\<rparr>),
     remove_file = (\<lambda>p. None),
     getsize = (\<lambda>p. Inl (Exn OtherException ''[Errno 2] No such file or directory''))\<rparr>"

text \<open>The renderer succeeds only when called with scale 2 and width 1600.\<close>

definition world_defaults_only :: world where
  "world_defaults_only = \<lparr>mkdir = (\<lambda>d. None), now = 1700000000, write_input = (\<lambda>p c. None),
     write_puppeteer = None,
     run = (\<lambda>cmd. if take 4 (drop 9 cmd) = [''-s'', ''2'', ''-w'', ''1600'']
                    then Inr \<lparr>returncode = 0, stderr = [], stdout = []\<rparr>
                    else Inr \<lparr>returncode = 1, stderr = ''bad size'', stdout = []\<rparr>),
     remove_file = (\<lambda>p. None), getsize = (\<lambda>p. Inr 1234)\<rparr>"

subsection \<open>Response shapes\<close>

text \<open>
  The two shapes a response of the tool has: a failure with \<open>success = False\<close> and
  an \<open>error\<close>, which when it has a \<open>prompt\<close> has a one-line one together with
  \<open>suggestion\<close>, \<open>attempt\<close> and \<open>max_attempts\<close>; or a success with
  \<open>success = True\<close> and a one-line \<open>message\<close>.
\<close>

definition response_ok :: "response \<Rightarrow> bool" where
  "response_ok r =
     ((map_of r ''success'' = Some (PBool False)
        \<and> (\<exists>e. map_of r ''error'' = Some (PStr e))
        \<and> (map_of r ''prompt'' \<noteq> None \<longrightarrow>
             (\<exists>p s a m. map_of r ''prompt'' = Some (PStr p) \<and> CHR 0x0A \<notin> set p
                \<and> map_of r ''suggestion'' = Some (PStr s)
                \<and> map_of r ''attempt'' = Some (PInt a)
                \<and> map_of r ''max_attempts'' = Some (PInt m))))
      \<or> (map_of r ''success'' = Some (PBool True)
          \<and> (\<exists>m. map_of r ''message'' = Some (PStr m) \<and> CHR 0x0A \<notin> set m)))"

section \<open>Properties of validate\_mermaid\_syntax\<close>

lemma validate_result_fields:
  "(\<exists>t n l. map_of (validate_result dt nc ls es ws) ''diagram_type'' = Some (PStr t)
         \<and> map_of (validate_result dt nc ls es ws) ''node_count'' = Some (PInt n)
         \<and> map_of (validate_result dt nc ls es ws) ''line_count'' = Some (PInt l))
   \<and> map_of (validate_result dt nc ls es ws) ''valid''
        = Some (PBool (map_of (validate_result dt nc ls es ws) ''errors'' = None))
   \<and> (\<forall>x. map_of (validate_result dt nc ls es ws) ''errors'' = Some x
        \<longrightarrow> (\<exists>es. x = PList es \<and> es \<noteq> []))"
  by (simp add: validate_result_def Let_def)

lemma validate_nonblank:
  "\<not> blank src \<Longrightarrow>
   \<exists>dt nc ls es ws. validate_mermaid_syntax src = validate_result dt nc ls es ws"
  unfolding validate_mermaid_syntax_def Let_def
  apply (subst if_not_P, assumption)
  apply (intro exI)
  apply (rule refl)
  done

lemma validate_blank:
  "blank src \<Longrightarrow>
   validate_mermaid_syntax src =
     [(''valid'', PBool False),
      (''errors'', PList [''Empty diagram code'']),
      (''suggestion'', PStr ''Provide Mermaid diagram syntax'')]"
  unfolding validate_mermaid_syntax_def
  by (rule if_P)

text \<open>
  C9, as the code has it. The claim says that every input gets the fields
  \<open>diagram_type\<close>, \<open>node_count\<close> and \<open>line_count\<close>; the early return for an empty or
  whitespace-only text (lines 252 to 257) has none of them. What holds: a text that
  is not blank gets all of \<open>valid\<close>, \<open>diagram_type\<close>, \<open>node_count\<close> and
  \<open>line_count\<close>; a blank text gets exactly \<open>valid = False\<close>, the \<open>errors\<close> list with
  \<open>Empty diagram code\<close> and a \<open>suggestion\<close>; for every text \<open>valid\<close> is present
  and is true exactly when the result has no \<open>errors\<close> entry, and an \<open>errors\<close> entry
  is a non-empty list. The \<open>warnings\<close> do not enter into \<open>valid\<close>.
\<close>

theorem validate_mermaid_syntax_fields:
  "(\<not> blank src \<longrightarrow>
      (\<exists>t n l. map_of (validate_mermaid_syntax src) ''diagram_type'' = Some (PStr t)
         \<and> map_of (validate_mermaid_syntax src) ''node_count'' = Some (PInt n)
         \<and> map_of (validate_mermaid_syntax src) ''line_count'' = Some (PInt l)))
   \<and> (blank src \<longrightarrow>
        validate_mermaid_syntax src =
          [(''valid'', PBool False),
           (''errors'', PList [''Empty diagram code'']),
           (''suggestion'', PStr ''Provide Mermaid diagram syntax'')])
   \<and> map_of (validate_mermaid_syntax src) ''valid''
        = Some (PBool (map_of (validate_mermaid_syntax src) ''errors'' = None))
   \<and> (\<forall>x. map_of (validate_mermaid_syntax src) ''errors'' = Some x
        \<longrightarrow> (\<exists>es. x = PList es \<and> es \<noteq> []))"
proof (cases "blank src")
  case True
  then show ?thesis
    by (simp add: validate_blank)
next
  case False
  then obtain dt nc ls es ws
    where "validate_mermaid_syntax src = validate_result dt nc ls es ws"
    using validate_nonblank by blast
  with False show ?thesis
    using validate_result_fields [of dt nc ls es ws] by simp
qed

text \<open>
  The theorem at \<open>graph TD\<close>: one line and no connection, so two warnings, and yet
  valid, with no \<open>errors\<close> entry; and at a text of two spaces.
\<close>

theorem validate_mermaid_syntax_fields_witness:
  "\<not> blank ''graph TD''
   \<and> map_of (validate_mermaid_syntax ''graph TD'') ''valid'' = Some (PBool True)
   \<and> map_of (validate_mermaid_syntax ''graph TD'') ''errors'' = None
   \<and> map_of (validate_mermaid_syntax ''graph TD'') ''warnings''
        = Some (PList [''Diagram has only one line - might be incomplete'',
                       ''No connections found (-->  or ---) - diagram might be empty''])
   \<and> (\<exists>t n l. map_of (validate_mermaid_syntax ''graph TD'') ''diagram_type'' = Some (PStr t)
         \<and> map_of (validate_mermaid_syntax ''graph TD'') ''node_count'' = Some (PInt n)
         \<and> map_of (validate_mermaid_syntax ''graph TD'') ''line_count'' = Some (PInt l))
   \<and> blank ''  ''
   \<and> validate_mermaid_syntax ''  '' =
          [(''valid'', PBool False),
           (''errors'', PList [''Empty diagram code'']),
           (''suggestion'', PStr ''Provide Mermaid diagram syntax'')]"
proof -
  have nb: "\<not> blank ''graph TD''"
    by (simp add: blank_def strip_def is_space_def)
  have bl: "blank ''  ''"
    by (simp add: blank_def strip_def is_space_def)
  have v: "map_of (validate_mermaid_syntax ''graph TD'') ''valid'' = Some (PBool True)"
    by code_simp
  have w: "map_of (validate_mermaid_syntax ''graph TD'') ''warnings''
        = Some (PList [''Diagram has only one line - might be incomplete'',
                       ''No connections found (-->  or ---) - diagram might be empty''])"
    by code_simp
  have a: "\<not> blank ''graph TD''
   \<and> map_of (validate_mermaid_syntax ''graph TD'') ''valid'' = Some (PBool True)
   \<and> map_of (validate_mermaid_syntax ''graph TD'') ''errors'' = None
   \<and> map_of (validate_mermaid_syntax ''graph TD'') ''warnings''
        = Some (PList [''Diagram has only one line - might be incomplete'',
                       ''No connections found (-->  or ---) - diagram might be empty''])
   \<and> (\<exists>t n l. map_of (validate_mermaid_syntax ''graph TD'') ''diagram_type'' = Some (PStr t)
         \<and> map_of (validate_mermaid_syntax ''graph TD'') ''node_count'' = Some (PInt n)
         \<and> map_of (validate_mermaid_syntax ''graph TD'') ''line_count'' = Some (PInt l))"
    using validate_mermaid_syntax_fields [of "''graph TD''"] nb v w by simp
  have b: "validate_mermaid_syntax ''  '' =
          [(''valid'', PBool False),
           (''errors'', PList [''Empty diagram code'']),
           (''suggestion'', PStr ''Provide Mermaid diagram syntax'')]"
    using validate_mermaid_syntax_fields [of "''  ''"] bl by blast
  from a bl b show ?thesis by blast
qed

text \<open>C9 as stated fails at the empty text: the result has none of the three fields.\<close>

theorem validate_mermaid_syntax_empty_counterexample:
  "map_of (validate_mermaid_syntax '''') ''diagram_type'' = None
   \<and> map_of (validate_mermaid_syntax '''') ''node_count'' = None
   \<and> map_of (validate_mermaid_syntax '''') ''line_count'' = None"
  by (simp add: validate_mermaid_syntax_def blank_def)

section \<open>Properties of get\_diagram\_resource\<close>

text \<open>
  C10. When \<open>exists()\<close> answers False for the path of \<open>diagram_name\<close>, the function
  returns the string \<open>Error: Diagram '<diagram_name>' not found\<close>. Whatever raises
  inside the function is turned into the string \<open>Error loading diagram: \<close> followed by
  the text of the exception: a failure of \<open>exists()\<close> itself, a failure to read the
  file, a failure to encode what was read. When nothing raises and the file exists,
  the encoded data is returned. So for every name and every behaviour of the file
  system and the encoder the function returns a string and raises nothing.
\<close>

theorem get_diagram_resource_not_found:
  "(path_exists w (Join DIAGRAMS_DIR diagram_name) = Inr False \<longrightarrow>
      get_diagram_resource w diagram_name
        = Inr (''Error: Diagram '' @ apostrophe @ diagram_name @ apostrophe @ '' not found''))
   \<and> (\<forall>e. path_exists w (Join DIAGRAMS_DIR diagram_name) = Inl e \<longrightarrow>
          get_diagram_resource w diagram_name = Inr (''Error loading diagram: '' @ exn_str e))
   \<and> (\<forall>e. path_exists w (Join DIAGRAMS_DIR diagram_name) = Inr True
            \<and> read_bytes w (Join DIAGRAMS_DIR diagram_name) = Inl e \<longrightarrow>
          get_diagram_resource w diagram_name = Inr (''Error loading diagram: '' @ exn_str e))
   \<and> (\<forall>e image_data. path_exists w (Join DIAGRAMS_DIR diagram_name) = Inr True
            \<and> read_bytes w (Join DIAGRAMS_DIR diagram_name) = Inr image_data
            \<and> b64encode w image_data = Inl e \<longrightarrow>
          get_diagram_resource w diagram_name = Inr (''Error loading diagram: '' @ exn_str e))
   \<and> (\<forall>image_data base64_data. path_exists w (Join DIAGRAMS_DIR diagram_name) = Inr True
            \<and> read_bytes w (Join DIAGRAMS_DIR diagram_name) = Inr image_data
            \<and> b64encode w image_data = Inr base64_data \<longrightarrow>
          get_diagram_resource w diagram_name = Inr base64_data)
   \<and> (\<forall>e. get_diagram_resource_body w diagram_name = Inl e \<longrightarrow>
          get_diagram_resource w diagram_name = Inr (''Error loading diagram: '' @ exn_str e))
   \<and> (\<exists>s. get_diagram_resource w diagram_name = Inr s)"
  by (simp add: get_diagram_resource_def get_diagram_resource_body_def
        split: sum.splits bool.splits)

text \<open>
  The theorem for a missing \<open>x.png\<close>, and for an \<open>x.png\<close> that exists and cannot be
  read.
\<close>

theorem get_diagram_resource_not_found_witness:
  "path_exists \<lparr>path_exists = (\<lambda>p. Inr False), read_bytes = (\<lambda>p. Inr []),
                 b64encode = (\<lambda>b. Inr [])\<rparr> (Join DIAGRAMS_DIR ''x.png'') = Inr False
   \<and> get_diagram_resource \<lparr>path_exists = (\<lambda>p. Inr False), read_bytes = (\<lambda>p. Inr []),
                 b64encode = (\<lambda>b. Inr [])\<rparr> ''x.png''
       = Inr (''Error: Diagram '' @ apostrophe @ ''x.png'' @ apostrophe @ '' not found'')
   \<and> get_diagram_resource
         \<lparr>path_exists = (\<lambda>p. Inr True),
          read_bytes = (\<lambda>p. Inl (Exn OtherException ''[Errno 13] Permission denied'')),
          b64encode = (\<lambda>b. Inr [])\<rparr> ''x.png''
       = Inr ''Error loading diagram: [Errno 13] Permission denied''"
proof -
  have a: "get_diagram_resource \<lparr>path_exists = (\<lambda>p. Inr False), read_bytes = (\<lambda>p. Inr []),
                 b64encode = (\<lambda>b. Inr [])\<rparr> ''x.png''
       = Inr (''Error: Diagram '' @ apostrophe @ ''x.png'' @ apostrophe @ '' not found'')"
    using get_diagram_resource_not_found
      [of "\<lparr>path_exists = (\<lambda>p. Inr False), read_bytes = (\<lambda>p. Inr []),
            b64encode = (\<lambda>b. Inr [])\<rparr>" "''x.png''"]
    by simp
  have b: "get_diagram_resource
         \<lparr>path_exists = (\<lambda>p. Inr True),
          read_bytes = (\<lambda>p. Inl (Exn OtherException ''[Errno 13] Permission denied'')),
          b64encode = (\<lambda>b. Inr [])\<rparr> ''x.png''
       = Inr ''Error loading diagram: [Errno 13] Permission denied''"
    using get_diagram_resource_not_found
      [of "\<lparr>path_exists = (\<lambda>p. Inr True),
          read_bytes = (\<lambda>p. Inl (Exn OtherException ''[Errno 13] Permission denied'')),
          b64encode = (\<lambda>b. Inr [])\<rparr>" "''x.png''"]
    by simp
  from a b show ?thesis by simp
qed

section \<open>The stages of generate\_mermaid\_diagram\<close>

text \<open>What each stage returns, path by path; the theorems further down rest on these.\<close>

lemma render_nonzero:
  assumes "run w cmd = Inr result" "returncode result \<noteq> 0"
    and "attempt_tracker st h = Some a"
  shows "render cfg w cmd h inp outp fmt st =
     (let error_msg = (if stderr result \<noteq> [] then stderr result
                       else if stdout result \<noteq> [] then stdout result
                       else ''Unknown error'')
      in (Inr [(''success'', PBool False),
           (''error'', PStr error_msg),
           (''suggestion'', PStr (parse_mermaid_error error_msg)),
           (''attempt'', PInt a),
           (''max_attempts'', PInt (max_attempts cfg)),
           (''prompt'', PStr (''Mermaid syntax error detected (attempt ''
              @ str_int a @ ''/'' @ str_int (max_attempts cfg)
              @ ''). Please fix the errors and try again.''))],
         (case remove_file w inp of
            None \<Rightarrow> st\<lparr>files := (files st)(inp := None)\<rparr>
          | Some e \<Rightarrow> st)))"
  using assms
  by (simp add: render_def render_try_def tracker_item_def Let_def split: option.splits)

lemma render_raise:
  assumes "run w cmd = Inl e" and "attempt_tracker st h = Some a"
  shows "render cfg w cmd h inp outp fmt st =
     (if exn_cls e = TimeoutExpired then
        (Inr [(''success'', PBool False),
              (''error'', PStr ''Diagram generation timed out (30s limit)''),
              (''suggestion'', PStr ''Diagram is too complex - try simplifying it''),
              (''attempt'', PInt a),
              (''max_attempts'', PInt (max_attempts cfg))], st)
      else
        (Inr [(''success'', PBool False),
              (''error'', PStr (''Unexpected error: '' @ exn_str e)),
              (''attempt'', PInt a),
              (''max_attempts'', PInt (max_attempts cfg))], st))"
  using assms
  by (simp add: render_def render_try_def render_except_def tracker_item_def)

lemma write_and_render_ok:
  assumes "mkdir w (output_dir cfg) = None"
    and "write_input w (''/tmp/mermaid_'' @ h @ ''.mmd'') code = None"
  shows "write_and_render cfg w code h fname fmt th bg sc wd st1 =
     render cfg w
       (mmdc_cmd (''/tmp/mermaid_'' @ h @ ''.mmd'')
          (os_path_join (output_dir cfg)
             ((if fname = [] then ''diagram_'' @ h @ ''_'' @ str_int (now w) else fname) @ ''.'' @ fmt))
          th bg fmt sc wd)
       h (''/tmp/mermaid_'' @ h @ ''.mmd'')
       (os_path_join (output_dir cfg)
             ((if fname = [] then ''diagram_'' @ h @ ''_'' @ str_int (now w) else fname) @ ''.'' @ fmt))
       fmt
       (case write_puppeteer w of
          None \<Rightarrow> st1\<lparr>files := (files st1)(''/tmp/mermaid_'' @ h @ ''.mmd'' \<mapsto> code,
                                             puppeteer_path \<mapsto> puppeteer_config_json)\<rparr>
        | Some e \<Rightarrow> st1\<lparr>files := (files st1)(''/tmp/mermaid_'' @ h @ ''.mmd'' \<mapsto> code)\<rparr>)"
  using assms
  by (simp add: write_and_render_def Let_def split: option.splits)

lemma generate_counted:
  assumes "\<not> blank (mermaid_code req)"
    and "\<not> int (length (mermaid_code req)) > max_size cfg"
    and "chosen_format cfg req \<in> set [''png'', ''svg'', ''pdf'']"
    and "tracker_get st (fp (mermaid_code req)) < max_attempts cfg"
  shows "generate_mermaid_diagram fp cfg w req st =
     write_and_render cfg w (mermaid_code req) (fp (mermaid_code req)) (filename req)
       (chosen_format cfg req)
       (if theme req = [] then default_theme cfg else theme req)
       (if background req = [] then default_background cfg else background req)
       (if scale req \<notin> set [1, 2, 3] then 2 else scale req)
       (if \<not> (800 \<le> width req \<and> width req \<le> 3200) then 1600 else width req)
       (st\<lparr>attempt_tracker := (attempt_tracker st)
             (fp (mermaid_code req) \<mapsto> tracker_get st (fp (mermaid_code req)) + 1)\<rparr>)"
proof -
  have a: "\<not> tracker_get st (fp (mermaid_code req)) \<ge> max_attempts cfg"
    using assms(4) by simp
  show ?thesis
    unfolding generate_mermaid_diagram_def Let_def
    by (simp only: assms(1) assms(2) assms(3) a if_False if_True not_True_eq_False not_False_eq_True)
qed


lemma generate_invalid:
  assumes "blank (mermaid_code req) \<or> int (length (mermaid_code req)) > max_size cfg
           \<or> chosen_format cfg req \<notin> set [''png'', ''svg'', ''pdf'']"
  shows "snd (generate_mermaid_diagram fp cfg w req st) = st
         \<and> (\<exists>e s. fst (generate_mermaid_diagram fp cfg w req st)
               = Inr [(''success'', PBool False), (''error'', PStr e), (''suggestion'', PStr s)])"
proof (cases "blank (mermaid_code req)")
  case True
  then show ?thesis
    unfolding generate_mermaid_diagram_def Let_def
    by (simp only: if_True if_False not_False_eq_True not_True_eq_False fst_conv snd_conv) blast
next
  case nb: False
  show ?thesis
  proof (cases "int (length (mermaid_code req)) > max_size cfg")
    case True
    with nb show ?thesis
      unfolding generate_mermaid_diagram_def Let_def
      by (simp only: if_True if_False not_False_eq_True not_True_eq_False fst_conv snd_conv) blast
  next
    case False
    with nb assms have "chosen_format cfg req \<notin> set [''png'', ''svg'', ''pdf'']"
      by blast
    with nb False show ?thesis
      unfolding generate_mermaid_diagram_def Let_def
      by (simp only: if_True if_False not_False_eq_True not_True_eq_False fst_conv snd_conv) blast
  qed
qed

lemma generate_exhausted:
  assumes "\<not> blank (mermaid_code req)"
    and "\<not> int (length (mermaid_code req)) > max_size cfg"
    and "chosen_format cfg req \<in> set [''png'', ''svg'', ''pdf'']"
    and "tracker_get st (fp (mermaid_code req)) \<ge> max_attempts cfg"
  shows "generate_mermaid_diagram fp cfg w req st =
     (Inr [(''success'', PBool False),
           (''error'', PStr (''Maximum retry attempts ('' @ str_int (max_attempts cfg) @ '') reached'')),
           (''suggestion'', PStr ''Unable to generate diagram after multiple attempts. Please verify Mermaid syntax is correct or simplify the diagram.''),
           (''attempts'', PInt (tracker_get st (fp (mermaid_code req)))),
           (''max_attempts'', PInt (max_attempts cfg))],
      st\<lparr>attempt_tracker := (attempt_tracker st)(fp (mermaid_code req) := None)\<rparr>)"
  unfolding generate_mermaid_diagram_def Let_def
  by (simp only: assms if_False if_True not_True_eq_False not_False_eq_True)

lemma write_and_render_fails:
  assumes mk: "mkdir w (output_dir cfg) = None"
    and nosucc: "\<forall>cmd c. run w cmd = Inr c \<longrightarrow> returncode c \<noteq> 0"
    and tr: "attempt_tracker st1 h = Some a"
  shows "\<exists>r. fst (write_and_render cfg w code h fname fmt th bg sc wd st1) = Inr r
           \<and> map_of r ''success'' = Some (PBool False)
           \<and> map_of r ''attempt'' = Some (PInt a)
           \<and> attempt_tracker (snd (write_and_render cfg w code h fname fmt th bg sc wd st1)) h = Some a"
proof (cases "write_input w (''/tmp/mermaid_'' @ h @ ''.mmd'') code")
  case (Some e)
  with mk tr show ?thesis
    by (simp add: write_and_render_def tracker_item_def Let_def)
next
  case None
  define cmd where "cmd = mmdc_cmd (''/tmp/mermaid_'' @ h @ ''.mmd'')
          (os_path_join (output_dir cfg)
             ((if fname = [] then ''diagram_'' @ h @ ''_'' @ str_int (now w) else fname) @ ''.'' @ fmt))
          th bg fmt sc wd"
  define st3 where "st3 = (case write_puppeteer w of
          None \<Rightarrow> st1\<lparr>files := (files st1)(''/tmp/mermaid_'' @ h @ ''.mmd'' \<mapsto> code,
                                             puppeteer_path \<mapsto> puppeteer_config_json)\<rparr>
        | Some e \<Rightarrow> st1\<lparr>files := (files st1)(''/tmp/mermaid_'' @ h @ ''.mmd'' \<mapsto> code)\<rparr>)"
  have tr3: "attempt_tracker st3 h = Some a"
    using tr by (simp add: st3_def split: option.splits)
  have eq: "write_and_render cfg w code h fname fmt th bg sc wd st1 =
      render cfg w cmd h (''/tmp/mermaid_'' @ h @ ''.mmd'')
       (os_path_join (output_dir cfg)
             ((if fname = [] then ''diagram_'' @ h @ ''_'' @ str_int (now w) else fname) @ ''.'' @ fmt))
       fmt st3"
    unfolding cmd_def st3_def by (rule write_and_render_ok [OF mk None])
  show ?thesis
  proof (cases "run w cmd")
    case (Inl e)
    show ?thesis
      unfolding eq using tr3
      by (simp add: render_raise [OF Inl tr3])
  next
    case (Inr c)
    with nosucc have nz: "returncode c \<noteq> 0" by blast
    show ?thesis
      unfolding eq using tr3
      by (simp add: render_nonzero [OF Inr nz tr3] Let_def split: option.splits)
  qed
qed

section \<open>Properties of generate\_mermaid\_diagram\<close>

text \<open>
  C1, at a call whose renderer runs into the timeout. The claim says that the scratch
  file is deleted on every exit path. The only \<open>os.remove\<close> of the function stands
  inside the \<open>try\<close> block after \<open>subprocess.run\<close> has returned (lines 179 to 183); the
  handlers for \<open>TimeoutExpired\<close> and for other exceptions (lines 223 to 238) do not
  remove anything. So the call returns the timeout response and the scratch file is
  still there with the source text in it, whereas after a renderer failure (exit
  code 1) it is gone.
\<close>

theorem scratch_file_left_after_timeout:
  "fst (generate_mermaid_diagram demo_fingerprint demo_cfg world_timeout demo_req empty_state)
     = Inr [(''success'', PBool False),
            (''error'', PStr ''Diagram generation timed out (30s limit)''),
            (''suggestion'', PStr ''Diagram is too complex - try simplifying it''),
            (''attempt'', PInt 1),
            (''max_attempts'', PInt 2)]
   \<and> files (snd (generate_mermaid_diagram demo_fingerprint demo_cfg world_timeout demo_req empty_state))
         (''/tmp/mermaid_'' @ demo_fingerprint (mermaid_code demo_req) @ ''.mmd'')
       = Some (mermaid_code demo_req)
   \<and> files (snd (generate_mermaid_diagram demo_fingerprint demo_cfg world_failing demo_req empty_state))
         (''/tmp/mermaid_'' @ demo_fingerprint (mermaid_code demo_req) @ ''.mmd'')
       = None"
  by code_simp

text \<open>
  C3, at two calls that end in an exception instead of a response. The claim says
  that every failure is turned into a structured response. \<open>mkdir\<close> (line 114) is
  outside every \<open>try\<close>: when the output directory cannot be created, its exception
  leaves the function. And when the renderer exits with code 0 but the output file is
  missing, \<open>getsize\<close> raises inside the \<open>try\<close> after the ledger entry has been
  popped (line 199), so the handler's own \<open>attempt_tracker[code_hash]\<close> (line 236)
  raises \<open>KeyError\<close>, which leaves the function too.
\<close>

theorem exceptions_leave_generate_mermaid_diagram:
  "fst (generate_mermaid_diagram demo_fingerprint demo_cfg world_no_mkdir demo_req empty_state)
     = Inl (Exn OtherException ''[Errno 13] Permission denied'')
   \<and> fst (generate_mermaid_diagram demo_fingerprint demo_cfg world_no_output demo_req empty_state)
     = Inl (Exn KeyError (apostrophe @ demo_fingerprint (mermaid_code demo_req) @ apostrophe))"
  by code_simp

lemma failing_step:
  assumes v: "\<not> blank (mermaid_code req)" "\<not> int (length (mermaid_code req)) > max_size cfg"
      "chosen_format cfg req \<in> set [''png'', ''svg'', ''pdf'']"
    and b: "tracker_get st (fp (mermaid_code req)) < max_attempts cfg"
    and mk: "mkdir w (output_dir cfg) = None"
    and nosucc: "\<forall>cmd c. run w cmd = Inr c \<longrightarrow> returncode c \<noteq> 0"
  shows "\<exists>r. fst (generate_mermaid_diagram fp cfg w req st) = Inr r
           \<and> map_of r ''success'' = Some (PBool False)
           \<and> map_of r ''attempt'' = Some (PInt (tracker_get st (fp (mermaid_code req)) + 1))
           \<and> attempt_tracker (snd (generate_mermaid_diagram fp cfg w req st)) (fp (mermaid_code req))
               = Some (tracker_get st (fp (mermaid_code req)) + 1)"
  unfolding generate_counted [where fp = fp and req = req and cfg = cfg and st = st, OF v b]
  by (rule write_and_render_fails [OF mk nosucc]) simp

lemma after_failing_calls:
  assumes v: "\<not> blank (mermaid_code req)" "\<not> int (length (mermaid_code req)) > max_size cfg"
      "chosen_format cfg req \<in> set [''png'', ''svg'', ''pdf'']"
    and fresh: "attempt_tracker st (fp (mermaid_code req)) = None"
    and fails: "\<forall>k. mkdir (ws k) (output_dir cfg) = None
                  \<and> (\<forall>cmd c. run (ws k) cmd = Inr c \<longrightarrow> returncode c \<noteq> 0)"
  shows "int k \<le> max_attempts cfg \<Longrightarrow>
         tracker_get (after_calls fp cfg ws req st k) (fp (mermaid_code req)) = int k"
proof (induction k)
  case 0
  show ?case using fresh by (simp add: tracker_get_def)
next
  case (Suc k)
  then have ih: "tracker_get (after_calls fp cfg ws req st k) (fp (mermaid_code req)) = int k"
    and lt: "int k < max_attempts cfg"
    by simp_all
  from fails have mk: "mkdir (ws k) (output_dir cfg) = None"
    and ns: "\<forall>cmd c. run (ws k) cmd = Inr c \<longrightarrow> returncode c \<noteq> 0"
    by blast+
  from lt ih have b: "tracker_get (after_calls fp cfg ws req st k) (fp (mermaid_code req))
      < max_attempts cfg" by simp
  from failing_step [where fp = fp and req = req and cfg = cfg and w = "ws k"
      and st = "after_calls fp cfg ws req st k", OF v b mk ns] ih
  show ?case by (auto simp: tracker_get_def)
qed

text \<open>
  C2, for a budget of at least one attempt. The request passes validation, the ledger
  has no entry for its fingerprint, and in every call the output directory can be
  created and the renderer never exits with code 0 (it fails, times out or cannot be
  started). Then, with \<open>N = max_attempts\<close>, the calls 1 to \<open>N\<close> report the attempt
  numbers 1 to \<open>N\<close>, call \<open>N + 1\<close> returns the budget-exhausted failure and leaves no
  entry for the fingerprint, and call \<open>N + 2\<close> reports attempt number 1. (Calls are
  counted from 0 in \<open>nth_call\<close>.)
\<close>

theorem attempts_count_up_then_reset:
  assumes v: "\<not> blank (mermaid_code req)" "\<not> int (length (mermaid_code req)) > max_size cfg"
      "chosen_format cfg req \<in> set [''png'', ''svg'', ''pdf'']"
    and pos: "1 \<le> max_attempts cfg"
    and fresh: "attempt_tracker st (fp (mermaid_code req)) = None"
    and fails: "\<forall>k. mkdir (ws k) (output_dir cfg) = None
                  \<and> (\<forall>cmd c. run (ws k) cmd = Inr c \<longrightarrow> returncode c \<noteq> 0)"
  shows "(\<forall>k. int k < max_attempts cfg \<longrightarrow>
            (\<exists>r. nth_call fp cfg ws req st k = Inr r
               \<and> map_of r ''success'' = Some (PBool False)
               \<and> map_of r ''attempt'' = Some (PInt (int k + 1))))
       \<and> nth_call fp cfg ws req st (nat (max_attempts cfg))
           = Inr [(''success'', PBool False),
                  (''error'', PStr (''Maximum retry attempts ('' @ str_int (max_attempts cfg) @ '') reached'')),
                  (''suggestion'', PStr ''Unable to generate diagram after multiple attempts. Please verify Mermaid syntax is correct or simplify the diagram.''),
                  (''attempts'', PInt (max_attempts cfg)),
                  (''max_attempts'', PInt (max_attempts cfg))]
       \<and> attempt_tracker (after_calls fp cfg ws req st (nat (max_attempts cfg) + 1))
            (fp (mermaid_code req)) = None
       \<and> (\<exists>r. nth_call fp cfg ws req st (nat (max_attempts cfg) + 1) = Inr r
               \<and> map_of r ''success'' = Some (PBool False)
               \<and> map_of r ''attempt'' = Some (PInt 1))"
proof -
  let ?h = "fp (mermaid_code req)"
  let ?N = "nat (max_attempts cfg)"
  note cnt = after_failing_calls [where fp = fp and req = req and cfg = cfg and st = st
      and ws = ws, OF v fresh fails]
  have first: "\<forall>k. int k < max_attempts cfg \<longrightarrow>
            (\<exists>r. nth_call fp cfg ws req st k = Inr r
               \<and> map_of r ''success'' = Some (PBool False)
               \<and> map_of r ''attempt'' = Some (PInt (int k + 1)))"
  proof (intro allI impI)
    fix k assume lt: "int k < max_attempts cfg"
    then have c: "tracker_get (after_calls fp cfg ws req st k) ?h = int k"
      using cnt [of k] by simp
    with lt have b: "tracker_get (after_calls fp cfg ws req st k) ?h < max_attempts cfg"
      by simp
    from fails have mk: "mkdir (ws k) (output_dir cfg) = None"
      and ns: "\<forall>cmd c. run (ws k) cmd = Inr c \<longrightarrow> returncode c \<noteq> 0"
      by blast+
    from failing_step [where fp = fp and req = req and cfg = cfg and w = "ws k"
      and st = "after_calls fp cfg ws req st k", OF v b mk ns] c
    show "\<exists>r. nth_call fp cfg ws req st k = Inr r
               \<and> map_of r ''success'' = Some (PBool False)
               \<and> map_of r ''attempt'' = Some (PInt (int k + 1))"
      by (auto simp: nth_call_def)
  qed
  have cN: "tracker_get (after_calls fp cfg ws req st ?N) ?h = max_attempts cfg"
    using cnt [of ?N] pos by simp
  then have ex: "generate_mermaid_diagram fp cfg (ws ?N) req (after_calls fp cfg ws req st ?N) =
     (Inr [(''success'', PBool False),
           (''error'', PStr (''Maximum retry attempts ('' @ str_int (max_attempts cfg) @ '') reached'')),
           (''suggestion'', PStr ''Unable to generate diagram after multiple attempts. Please verify Mermaid syntax is correct or simplify the diagram.''),
           (''attempts'', PInt (max_attempts cfg)),
           (''max_attempts'', PInt (max_attempts cfg))],
      (after_calls fp cfg ws req st ?N)\<lparr>attempt_tracker :=
         (attempt_tracker (after_calls fp cfg ws req st ?N))(?h := None)\<rparr>)"
    using generate_exhausted [where fp = fp and req = req and cfg = cfg and w = "ws ?N"
      and st = "after_calls fp cfg ws req st ?N", OF v] by simp
  have second: "nth_call fp cfg ws req st ?N
           = Inr [(''success'', PBool False),
                  (''error'', PStr (''Maximum retry attempts ('' @ str_int (max_attempts cfg) @ '') reached'')),
                  (''suggestion'', PStr ''Unable to generate diagram after multiple attempts. Please verify Mermaid syntax is correct or simplify the diagram.''),
                  (''attempts'', PInt (max_attempts cfg)),
                  (''max_attempts'', PInt (max_attempts cfg))]"
    unfolding nth_call_def ex by (simp only: fst_conv)
  have third: "attempt_tracker (after_calls fp cfg ws req st (?N + 1)) ?h = None"
    using ex by simp
  then have c0: "tracker_get (after_calls fp cfg ws req st (?N + 1)) ?h = 0"
    by (simp add: tracker_get_def)
  with pos have b: "tracker_get (after_calls fp cfg ws req st (?N + 1)) ?h < max_attempts cfg"
    by simp
  from fails have mk: "mkdir (ws (?N + 1)) (output_dir cfg) = None"
    and ns: "\<forall>cmd c. run (ws (?N + 1)) cmd = Inr c \<longrightarrow> returncode c \<noteq> 0"
    by blast+
  from failing_step [where fp = fp and req = req and cfg = cfg and w = "ws (?N + 1)"
      and st = "after_calls fp cfg ws req st (?N + 1)", OF v b mk ns] c0
  have fourth: "\<exists>r. nth_call fp cfg ws req st (?N + 1) = Inr r
               \<and> map_of r ''success'' = Some (PBool False)
               \<and> map_of r ''attempt'' = Some (PInt 1)"
    by (auto simp: nth_call_def)
  from first second third fourth show ?thesis by blast
qed

text \<open>The theorem with a budget of 2 and a renderer that always exits with code 1.\<close>

theorem attempts_count_up_then_reset_witness:
  "\<not> blank (mermaid_code demo_req)
   \<and> \<not> int (length (mermaid_code demo_req)) > max_size demo_cfg
   \<and> chosen_format demo_cfg demo_req \<in> set [''png'', ''svg'', ''pdf'']
   \<and> 1 \<le> max_attempts demo_cfg
   \<and> attempt_tracker empty_state (demo_fingerprint (mermaid_code demo_req)) = None
   \<and> mkdir world_failing (output_dir demo_cfg) = None
   \<and> (\<forall>cmd. returncode (projr (run world_failing cmd)) = 1)
   \<and> map_of (projr (nth_call demo_fingerprint demo_cfg worlds_failing demo_req empty_state 0))
         ''attempt'' = Some (PInt 1)
   \<and> map_of (projr (nth_call demo_fingerprint demo_cfg worlds_failing demo_req empty_state 1))
         ''attempt'' = Some (PInt 2)
   \<and> map_of (projr (nth_call demo_fingerprint demo_cfg worlds_failing demo_req empty_state 2))
         ''error'' = Some (PStr (''Maximum retry attempts ('' @ str_int 2 @ '') reached''))
   \<and> attempt_tracker (after_calls demo_fingerprint demo_cfg worlds_failing demo_req empty_state 3)
         (demo_fingerprint (mermaid_code demo_req)) = None
   \<and> map_of (projr (nth_call demo_fingerprint demo_cfg worlds_failing demo_req empty_state 3))
         ''attempt'' = Some (PInt 1)"
proof -
  have h1: "\<not> blank (mermaid_code demo_req)"
    by (simp add: blank_def strip_def is_space_def demo_req_def)
  have h2: "\<not> int (length (mermaid_code demo_req)) > max_size demo_cfg"
    by (simp add: demo_req_def demo_cfg_def)
  have h3: "chosen_format demo_cfg demo_req \<in> set [''png'', ''svg'', ''pdf'']"
    by (simp add: chosen_format_def demo_req_def)
  have h4: "1 \<le> max_attempts demo_cfg"
    by (simp add: demo_cfg_def)
  have h5: "attempt_tracker empty_state (demo_fingerprint (mermaid_code demo_req)) = None"
    by (simp add: empty_state_def)
  have h6: "\<forall>k. mkdir (worlds_failing k) (output_dir demo_cfg) = None
          \<and> (\<forall>cmd c. run (worlds_failing k) cmd = Inr c \<longrightarrow> returncode c \<noteq> 0)"
    by (auto simp: world_failing_def worlds_failing_def)
  have n: "nat (max_attempts demo_cfg) = 2" "max_attempts demo_cfg = 2"
    by (simp_all add: demo_cfg_def)
  note t = attempts_count_up_then_reset [where fp = demo_fingerprint and cfg = demo_cfg
      and req = demo_req and st = empty_state and ws = worlds_failing, OF h1 h2 h3 h4 h5 h6]
  from t have a: "\<forall>k. int k < 2 \<longrightarrow>
      (\<exists>r. nth_call demo_fingerprint demo_cfg worlds_failing demo_req empty_state k = Inr r
         \<and> map_of r ''attempt'' = Some (PInt (int k + 1)))"
    unfolding n by blast
  from a [rule_format, of 0]
  have c0: "map_of (projr (nth_call demo_fingerprint demo_cfg worlds_failing demo_req empty_state 0))
         ''attempt'' = Some (PInt 1)"
    by auto
  from a [rule_format, of 1]
  have c1: "map_of (projr (nth_call demo_fingerprint demo_cfg worlds_failing demo_req empty_state 1))
         ''attempt'' = Some (PInt 2)"
    by auto
  from t have c2: "map_of (projr (nth_call demo_fingerprint demo_cfg worlds_failing demo_req empty_state 2))
         ''error'' = Some (PStr (''Maximum retry attempts ('' @ str_int 2 @ '') reached''))"
    unfolding n by simp
  from t have c3: "attempt_tracker (after_calls demo_fingerprint demo_cfg worlds_failing demo_req empty_state 3)
         (demo_fingerprint (mermaid_code demo_req)) = None"
    unfolding n by simp
  from t have c4: "map_of (projr (nth_call demo_fingerprint demo_cfg worlds_failing demo_req empty_state 3))
         ''attempt'' = Some (PInt 1)"
    unfolding n by auto
  have h7: "mkdir world_failing (output_dir demo_cfg) = None"
    "\<forall>cmd. returncode (projr (run world_failing cmd)) = 1"
    by (simp_all add: world_failing_def)
  from h1 h2 h3 h4 h5 h7 c0 c1 c2 c3 c4 show ?thesis by blast
qed

text \<open>
  C2 as stated fails for a budget of 0: the first call is already refused as
  budget-exhausted, and so is the call after it, which the claim has start again at
  attempt number 1.
\<close>

theorem zero_budget_counterexample:
  "nth_call demo_fingerprint (demo_cfg\<lparr>max_attempts := 0\<rparr>) worlds_failing demo_req empty_state 0
     = Inr [(''success'', PBool False),
            (''error'', PStr ''Maximum retry attempts (0) reached''),
            (''suggestion'', PStr ''Unable to generate diagram after multiple attempts. Please verify Mermaid syntax is correct or simplify the diagram.''),
            (''attempts'', PInt 0),
            (''max_attempts'', PInt 0)]
   \<and> nth_call demo_fingerprint (demo_cfg\<lparr>max_attempts := 0\<rparr>) worlds_failing demo_req empty_state 1
     = Inr [(''success'', PBool False),
            (''error'', PStr ''Maximum retry attempts (0) reached''),
            (''suggestion'', PStr ''Unable to generate diagram after multiple attempts. Please verify Mermaid syntax is correct or simplify the diagram.''),
            (''attempts'', PInt 0),
            (''max_attempts'', PInt 0)]
   \<and> map_of (projr (nth_call demo_fingerprint (demo_cfg\<lparr>max_attempts := 0\<rparr>) worlds_failing
                 demo_req empty_state 1)) ''attempt'' \<noteq> Some (PInt 1)"
  by code_simp

text \<open>
  C5. A request that fails validation (the source text is empty or whitespace-only,
  or longer than the configured maximum, or the output format is none of \<open>png\<close>,
  \<open>svg\<close>, \<open>pdf\<close>) gets a response of exactly the three fields \<open>success = False\<close>,
  \<open>error\<close> and \<open>suggestion\<close>, and the state after the call is the state before it:
  the ledger has no entry created, incremented or removed.
\<close>

theorem validation_failure_leaves_ledger:
  assumes "blank (mermaid_code req) \<or> int (length (mermaid_code req)) > max_size cfg
           \<or> chosen_format cfg req \<notin> set [''png'', ''svg'', ''pdf'']"
  shows "snd (generate_mermaid_diagram fp cfg w req st) = st
         \<and> attempt_tracker (snd (generate_mermaid_diagram fp cfg w req st)) = attempt_tracker st
         \<and> (\<exists>e s. fst (generate_mermaid_diagram fp cfg w req st)
               = Inr [(''success'', PBool False), (''error'', PStr e), (''suggestion'', PStr s)])"
  using generate_invalid [OF assms, of fp w st] by simp

text \<open>The theorem for a text of 15 characters with a maximum of 5.\<close>

theorem validation_failure_leaves_ledger_witness:
  "int (length (mermaid_code demo_req)) > max_size (demo_cfg\<lparr>max_size := 5\<rparr>)
   \<and> snd (generate_mermaid_diagram demo_fingerprint (demo_cfg\<lparr>max_size := 5\<rparr>) world_failing demo_req
          empty_state) = empty_state
   \<and> fst (generate_mermaid_diagram demo_fingerprint (demo_cfg\<lparr>max_size := 5\<rparr>) world_failing demo_req
          empty_state)
       = Inr [(''success'', PBool False),
              (''error'', PStr ''Diagram code too large (15 chars, max 5)''),
              (''suggestion'', PStr ''Simplify the diagram or split into multiple diagrams'')]"
proof -
  have h: "blank (mermaid_code demo_req) \<or> int (length (mermaid_code demo_req)) > max_size (demo_cfg\<lparr>max_size := 5\<rparr>)
      \<or> chosen_format (demo_cfg\<lparr>max_size := 5\<rparr>) demo_req \<notin> set [''png'', ''svg'', ''pdf'']"
    by (simp add: demo_req_def demo_cfg_def)
  have r: "fst (generate_mermaid_diagram demo_fingerprint (demo_cfg\<lparr>max_size := 5\<rparr>) world_failing demo_req
          empty_state)
       = Inr [(''success'', PBool False),
              (''error'', PStr ''Diagram code too large (15 chars, max 5)''),
              (''suggestion'', PStr ''Simplify the diagram or split into multiple diagrams'')]"
    by code_simp
  have l: "int (length (mermaid_code demo_req)) > max_size (demo_cfg\<lparr>max_size := 5\<rparr>)"
    by (simp add: demo_req_def demo_cfg_def)
  from validation_failure_leaves_ledger [OF h, of demo_fingerprint world_failing empty_state] l r
  show ?thesis by blast
qed

text \<open>
  C4, as the code has it. The claim says a non-zero exit code or a captured error
  stream gives a render failure; the code tests the exit code only (line 185). What
  holds: when a request passes validation and is within its budget, the directory
  and the scratch file are written, and the renderer exits with a code other than 0,
  the response is the failure response with the raw message (the error stream, or
  else the output stream, or else \<open>Unknown error\<close>), the suggestion classified from
  it, the attempt number, the maximum and the prompt.
\<close>

theorem nonzero_exit_is_render_failure:
  assumes v: "\<not> blank (mermaid_code req)" "\<not> int (length (mermaid_code req)) > max_size cfg"
      "chosen_format cfg req \<in> set [''png'', ''svg'', ''pdf'']"
    and b: "tracker_get st (fp (mermaid_code req)) < max_attempts cfg"
    and mk: "mkdir w (output_dir cfg) = None"
    and wr: "write_input w (''/tmp/mermaid_'' @ fp (mermaid_code req) @ ''.mmd'') (mermaid_code req) = None"
    and rn: "\<forall>cmd. run w cmd = Inr c"
    and nz: "returncode c \<noteq> 0"
  shows "fst (generate_mermaid_diagram fp cfg w req st) =
     (let error_msg = (if stderr c \<noteq> [] then stderr c
                       else if stdout c \<noteq> [] then stdout c
                       else ''Unknown error'');
          attempt = tracker_get st (fp (mermaid_code req)) + 1
      in Inr [(''success'', PBool False),
           (''error'', PStr error_msg),
           (''suggestion'', PStr (parse_mermaid_error error_msg)),
           (''attempt'', PInt attempt),
           (''max_attempts'', PInt (max_attempts cfg)),
           (''prompt'', PStr (''Mermaid syntax error detected (attempt ''
              @ str_int attempt @ ''/'' @ str_int (max_attempts cfg)
              @ ''). Please fix the errors and try again.''))])"
proof -
  let ?h = "fp (mermaid_code req)"
  let ?st1 = "st\<lparr>attempt_tracker := (attempt_tracker st)(?h \<mapsto> tracker_get st ?h + 1)\<rparr>"
  let ?st3 = "case write_puppeteer w of
          None \<Rightarrow> ?st1\<lparr>files := (files ?st1)(''/tmp/mermaid_'' @ ?h @ ''.mmd'' \<mapsto> mermaid_code req,
                                             puppeteer_path \<mapsto> puppeteer_config_json)\<rparr>
        | Some e \<Rightarrow> ?st1\<lparr>files := (files ?st1)(''/tmp/mermaid_'' @ ?h @ ''.mmd'' \<mapsto> mermaid_code req)\<rparr>"
  have tr: "attempt_tracker ?st3 ?h = Some (tracker_get st ?h + 1)"
    by (simp split: option.splits)
  from rn have rn': "\<And>cmd. run w cmd = Inr c" by blast
  show ?thesis
    unfolding generate_counted [where fp = fp and req = req and cfg = cfg and st = st, OF v b]
      write_and_render_ok [OF mk wr]
      render_nonzero [OF rn' nz tr]
    by (simp add: Let_def)
qed

text \<open>The theorem for a renderer that exits with code 1 and a parse error.\<close>

theorem nonzero_exit_is_render_failure_witness:
  "\<not> blank (mermaid_code demo_req)
   \<and> \<not> int (length (mermaid_code demo_req)) > max_size demo_cfg
   \<and> chosen_format demo_cfg demo_req \<in> set [''png'', ''svg'', ''pdf'']
   \<and> tracker_get empty_state (demo_fingerprint (mermaid_code demo_req)) < max_attempts demo_cfg
   \<and> mkdir world_failing (output_dir demo_cfg) = None
   \<and> write_input world_failing (''/tmp/mermaid_'' @ demo_fingerprint (mermaid_code demo_req) @ ''.mmd'')
        (mermaid_code demo_req) = None
   \<and> (\<forall>cmd. run world_failing cmd
          = Inr \<lparr>returncode = 1, stderr = ''Parse error on line 2'', stdout = []\<rparr>)
   \<and> returncode \<lparr>returncode = 1, stderr = ''Parse error on line 2'', stdout = []\<rparr> \<noteq> 0
   \<and> fst (generate_mermaid_diagram demo_fingerprint demo_cfg world_failing demo_req empty_state) =
       Inr [(''success'', PBool False),
           (''error'', PStr ''Parse error on line 2''),
           (''suggestion'', PStr ''Parse error. Verify diagram type declaration (graph TD, sequenceDiagram, etc.) and node connections.''),
           (''attempt'', PInt 1),
           (''max_attempts'', PInt 2),
           (''prompt'', PStr ''Mermaid syntax error detected (attempt 1/2). Please fix the errors and try again.'')]"
proof -
  have h1: "\<not> blank (mermaid_code demo_req)"
    by (simp add: blank_def strip_def is_space_def demo_req_def)
  have h2: "\<not> int (length (mermaid_code demo_req)) > max_size demo_cfg"
    by (simp add: demo_req_def demo_cfg_def)
  have h3: "chosen_format demo_cfg demo_req \<in> set [''png'', ''svg'', ''pdf'']"
    by (simp add: chosen_format_def demo_req_def)
  have h4: "tracker_get empty_state (demo_fingerprint (mermaid_code demo_req)) < max_attempts demo_cfg"
    by (simp add: tracker_get_def empty_state_def demo_cfg_def)
  have h5: "mkdir world_failing (output_dir demo_cfg) = None"
    by (simp add: world_failing_def)
  have h6: "write_input world_failing (''/tmp/mermaid_'' @ demo_fingerprint (mermaid_code demo_req) @ ''.mmd'')
        (mermaid_code demo_req) = None"
    by (simp add: world_failing_def)
  have h7: "\<forall>cmd. run world_failing cmd
          = Inr \<lparr>returncode = 1, stderr = ''Parse error on line 2'', stdout = []\<rparr>"
    by (simp add: world_failing_def)
  have h8: "returncode \<lparr>returncode = 1, stderr = ''Parse error on line 2'', stdout = []\<rparr> \<noteq> 0"
    by simp
  have e: "(let error_msg = ''Parse error on line 2''; attempt = (1::int)
      in Inr [(''success'', PBool False),
           (''error'', PStr error_msg),
           (''suggestion'', PStr (parse_mermaid_error error_msg)),
           (''attempt'', PInt attempt),
           (''max_attempts'', PInt 2),
           (''prompt'', PStr (''Mermaid syntax error detected (attempt ''
              @ str_int attempt @ ''/'' @ str_int 2
              @ ''). Please fix the errors and try again.''))]) =
       (Inr [(''success'', PBool False),
           (''error'', PStr ''Parse error on line 2''),
           (''suggestion'', PStr ''Parse error. Verify diagram type declaration (graph TD, sequenceDiagram, etc.) and node connections.''),
           (''attempt'', PInt 1),
           (''max_attempts'', PInt 2),
           (''prompt'', PStr ''Mermaid syntax error detected (attempt 1/2). Please fix the errors and try again.'')]
         :: exn + response)"
    by code_simp
  have g: "tracker_get empty_state (demo_fingerprint (mermaid_code demo_req)) + 1 = 1"
     "max_attempts demo_cfg = 2"
    by (simp_all add: tracker_get_def empty_state_def demo_cfg_def)
  from nonzero_exit_is_render_failure [where fp = demo_fingerprint and cfg = demo_cfg
      and req = demo_req and st = empty_state and w = world_failing, OF h1 h2 h3 h4 h5 h6 h7 h8]
  have "fst (generate_mermaid_diagram demo_fingerprint demo_cfg world_failing demo_req empty_state) =
       Inr [(''success'', PBool False),
           (''error'', PStr ''Parse error on line 2''),
           (''suggestion'', PStr ''Parse error. Verify diagram type declaration (graph TD, sequenceDiagram, etc.) and node connections.''),
           (''attempt'', PInt 1),
           (''max_attempts'', PInt 2),
           (''prompt'', PStr ''Mermaid syntax error detected (attempt 1/2). Please fix the errors and try again.'')]"
    unfolding g using e by simp
  with h1 h2 h3 h4 h5 h6 h7 h8 show ?thesis by blast
qed

text \<open>
  C4 as stated fails at a call whose renderer exits with code 0 after writing a warning
  to its error stream: that call returns the success response.
\<close>

theorem exit_zero_with_stderr_counterexample:
  "returncode (projr (run world_ok_with_warning [])) = 0
   \<and> stderr (projr (run world_ok_with_warning [])) \<noteq> []
   \<and> map_of (projr (fst (generate_mermaid_diagram demo_fingerprint demo_cfg world_ok_with_warning
                 demo_req empty_state))) ''success'' = Some (PBool True)"
  by code_simp

section \<open>The shape of the responses\<close>

lemma newline_not_char_of_nat: "(n::nat) mod 256 \<noteq> 10 \<Longrightarrow> CHR 0x0A \<noteq> char_of n"
proof
  assume n: "n mod 256 \<noteq> 10" and eq: "CHR 0x0A = char_of n"
  from eq have "(of_char (CHR 0x0A) :: nat) = of_char (char_of n)" by simp
  with n show False by simp
qed

lemma digit_char_no_newline: "0 \<le> d \<Longrightarrow> d < 10 \<Longrightarrow> CHR 0x0A \<noteq> digit_char d"
proof
  assume d: "0 \<le> d" "d < 10" and eq: "CHR 0x0A = digit_char d"
  from eq have "(of_char (CHR 0x0A) :: int) = of_char (digit_char d)" by simp
  then have "(48 + d) mod 256 = 10" by (simp add: digit_char_def)
  with d show False by simp
qed

lemma digits_no_newline: "0 \<le> n \<Longrightarrow> CHR 0x0A \<notin> set (digits n)"
proof (induction n rule: digits.induct)
  case (1 n)
  show ?case
  proof (cases "n < 10")
    case True
    with "1.prems" show ?thesis
      by (subst digits.simps) (simp add: digit_char_no_newline)
  next
    case False
    then have "0 \<le> n div 10" "0 \<le> n mod 10" "n mod 10 < 10" by simp_all
    with False "1.IH" show ?thesis
      by (subst digits.simps) (simp add: digit_char_no_newline)
  qed
qed

lemma str_int_no_newline: "CHR 0x0A \<notin> set (str_int i)"
  by (simp add: str_int_def digits_no_newline)

lemma upper_format_no_newline:
  "fmt \<in> set [''png'', ''svg'', ''pdf''] \<Longrightarrow> CHR 0x0A \<notin> set (upper fmt)"
  by (auto simp: upper_def upper_char_def newline_not_char_of_nat)

lemma render_try_response_ok:
  assumes "fmt \<in> set [''png'', ''svg'', ''pdf'']"
    and "fst (render_try cfg w cmd h inp outp fmt st) = Inr r"
  shows "response_ok r"
  using assms(2) upper_format_no_newline [OF assms(1)]
  by (auto simp: render_try_def response_ok_def Let_def check_mark_def str_int_no_newline
        split: sum.splits option.splits if_splits)

lemma render_except_response_ok:
  assumes "fst (render_except cfg h e st) = Inr r"
  shows "response_ok r"
  using assms
  by (auto simp: render_except_def response_ok_def split: sum.splits if_splits)

lemma render_response_ok:
  assumes "fmt \<in> set [''png'', ''svg'', ''pdf'']"
    and "fst (render cfg w cmd h inp outp fmt st) = Inr r"
  shows "response_ok r"
proof (cases "render_try cfg w cmd h inp outp fmt st")
  case (Pair x st')
  show ?thesis
  proof (cases x)
    case (Inl e)
    with Pair assms(2) have "fst (render_except cfg h e st') = Inr r"
      by (simp add: render_def)
    then show ?thesis by (rule render_except_response_ok)
  next
    case (Inr r')
    with Pair assms(2) have "fst (render_try cfg w cmd h inp outp fmt st) = Inr r"
      by (simp add: render_def)
    with assms(1) show ?thesis by (rule render_try_response_ok)
  qed
qed

lemma write_and_render_response_ok:
  assumes f: "fmt \<in> set [''png'', ''svg'', ''pdf'']"
    and r: "fst (write_and_render cfg w code h fname fmt th bg sc wd st1) = Inr r"
  shows "response_ok r"
proof (cases "mkdir w (output_dir cfg)")
  case (Some e)
  with r show ?thesis by (simp add: write_and_render_def)
next
  case mk: None
  show ?thesis
  proof (cases "write_input w (''/tmp/mermaid_'' @ h @ ''.mmd'') code")
    case (Some e)
    with mk r show ?thesis
      by (auto simp: write_and_render_def Let_def response_ok_def split: sum.splits)
  next
    case None
    from r show ?thesis
      unfolding write_and_render_ok [OF mk None]
      by (rule render_response_ok [OF f])
  qed
qed

lemma render_zero_not_failure:
  assumes "run w cmd = Inr c" "returncode c = 0"
    and "fst (render cfg w cmd h inp outp fmt st) = Inr r"
  shows "map_of r ''success'' = Some (PBool True)"
  using assms
  by (auto simp: render_def render_try_def render_except_def tracker_item_def Let_def
        split: sum.splits option.splits if_splits prod.splits)

lemma write_and_render_failure_fields:
  assumes tr: "attempt_tracker st1 h = Some a"
    and r: "fst (write_and_render cfg w code h fname fmt th bg sc wd st1) = Inr r"
    and f: "map_of r ''success'' = Some (PBool False)"
  shows "map_of r ''attempt'' = Some (PInt a)
     \<and> map_of r ''max_attempts'' = Some (PInt (max_attempts cfg))
     \<and> (write_input w (''/tmp/mermaid_'' @ h @ ''.mmd'') code = None
          \<and> (\<forall>cmd e. run w cmd = Inl e \<longrightarrow> exn_cls e = TimeoutExpired)
        \<longrightarrow> (\<exists>s. map_of r ''suggestion'' = Some (PStr s)))
     \<and> (write_input w (''/tmp/mermaid_'' @ h @ ''.mmd'') code = None
          \<and> (\<forall>cmd. \<exists>c. run w cmd = Inr c)
        \<longrightarrow> (\<exists>p. map_of r ''prompt'' = Some (PStr p)))"
proof (cases "mkdir w (output_dir cfg)")
  case (Some e)
  with r show ?thesis by (simp add: write_and_render_def)
next
  case mk: None
  show ?thesis
  proof (cases "write_input w (''/tmp/mermaid_'' @ h @ ''.mmd'') code")
    case (Some e)
    with mk r tr show ?thesis
      by (auto simp: write_and_render_def tracker_item_def Let_def)
  next
    case None
    define cmd where "cmd = mmdc_cmd (''/tmp/mermaid_'' @ h @ ''.mmd'')
          (os_path_join (output_dir cfg)
             ((if fname = [] then ''diagram_'' @ h @ ''_'' @ str_int (now w) else fname) @ ''.'' @ fmt))
          th bg fmt sc wd"
    define st3 where "st3 = (case write_puppeteer w of
          None \<Rightarrow> st1\<lparr>files := (files st1)(''/tmp/mermaid_'' @ h @ ''.mmd'' \<mapsto> code,
                                             puppeteer_path \<mapsto> puppeteer_config_json)\<rparr>
        | Some e \<Rightarrow> st1\<lparr>files := (files st1)(''/tmp/mermaid_'' @ h @ ''.mmd'' \<mapsto> code)\<rparr>)"
    have tr3: "attempt_tracker st3 h = Some a"
      using tr by (simp add: st3_def split: option.splits)
    have eq: "write_and_render cfg w code h fname fmt th bg sc wd st1 =
      render cfg w cmd h (''/tmp/mermaid_'' @ h @ ''.mmd'')
       (os_path_join (output_dir cfg)
             ((if fname = [] then ''diagram_'' @ h @ ''_'' @ str_int (now w) else fname) @ ''.'' @ fmt))
       fmt st3"
      unfolding cmd_def st3_def by (rule write_and_render_ok [OF mk None])
    show ?thesis
    proof (cases "run w cmd")
      case (Inl e)
      from r have "r = (if exn_cls e = TimeoutExpired then
          [(''success'', PBool False),
              (''error'', PStr ''Diagram generation timed out (30s limit)''),
              (''suggestion'', PStr ''Diagram is too complex - try simplifying it''),
              (''attempt'', PInt a),
              (''max_attempts'', PInt (max_attempts cfg))]
        else
          [(''success'', PBool False),
              (''error'', PStr (''Unexpected error: '' @ exn_str e)),
              (''attempt'', PInt a),
              (''max_attempts'', PInt (max_attempts cfg))])"
        unfolding eq render_raise [OF Inl tr3] by (simp split: if_splits)
      note req = this
      have nr: "\<not> (\<forall>cmd. \<exists>c. run w cmd = Inr c)"
      proof
        assume "\<forall>cmd. \<exists>c. run w cmd = Inr c"
        then obtain c where "run w cmd = Inr c" by blast
        with Inl show False by simp
      qed
      show ?thesis
      proof (cases "exn_cls e = TimeoutExpired")
        case True
        with req nr show ?thesis by simp
      next
        case False
        with Inl have "\<not> (\<forall>cmd e. run w cmd = Inl e \<longrightarrow> exn_cls e = TimeoutExpired)"
          by blast
        with False req nr show ?thesis by simp
      qed
    next
      case (Inr c)
      show ?thesis
      proof (cases "returncode c = 0")
        case True
        from r have "fst (render cfg w cmd h (''/tmp/mermaid_'' @ h @ ''.mmd'')
           (os_path_join (output_dir cfg)
             ((if fname = [] then ''diagram_'' @ h @ ''_'' @ str_int (now w) else fname) @ ''.'' @ fmt))
           fmt st3) = Inr r"
          unfolding eq .
        from render_zero_not_failure [OF Inr True this] f show ?thesis by simp
      next
        case False
        from r show ?thesis
          unfolding eq render_nonzero [OF Inr False tr3]
          by (auto simp: Let_def)
      qed
    qed
  qed
qed

text \<open>
  C6, as the code has it. The claim gives every failure response all of
  \<open>suggestion\<close>, \<open>attempt\<close>, \<open>max_attempts\<close> and \<open>prompt\<close>; the responses differ by
  the kind of failure. What holds of every response the tool returns: either it is a
  failure, with \<open>success = False\<close> and an \<open>error\<close> text, and then
  \<^item> it has a \<open>suggestion\<close> when the request failed validation, or the budget was
    exhausted, or the scratch file was written and the renderer raised nothing but a
    timeout (so for validation failures, the budget-exhausted failure, render
    failures and timeouts);
  \<^item> it has \<open>max_attempts\<close>, the configured maximum, unless the request failed
    validation;
  \<^item> it has \<open>attempt\<close>, the count read from the ledger plus one, when the attempt
    was counted (the request passed validation and the budget was not exhausted);
  \<^item> it has a \<open>prompt\<close> when the attempt was counted, the scratch file was written
    and the renderer ran to its end (a render failure);
  \<^item> a \<open>prompt\<close>, where there is one, is a single line and comes with
    \<open>suggestion\<close>, \<open>attempt\<close> and \<open>max_attempts\<close>;

  or it is a success, with \<open>success = True\<close> and a single-line summary in \<open>message\<close>.
\<close>

theorem response_fields:
  assumes "fst (generate_mermaid_diagram fp cfg w req st) = Inr r"
  shows "(map_of r ''success'' = Some (PBool False)
        \<and> (\<exists>e. map_of r ''error'' = Some (PStr e))
        \<and> (blank (mermaid_code req) \<or> int (length (mermaid_code req)) > max_size cfg
             \<or> chosen_format cfg req \<notin> set [''png'', ''svg'', ''pdf'']
             \<or> max_attempts cfg \<le> tracker_get st (fp (mermaid_code req))
             \<or> (write_input w (''/tmp/mermaid_'' @ fp (mermaid_code req) @ ''.mmd'')
                   (mermaid_code req) = None
                 \<and> (\<forall>cmd e. run w cmd = Inl e \<longrightarrow> exn_cls e = TimeoutExpired))
            \<longrightarrow> (\<exists>s. map_of r ''suggestion'' = Some (PStr s)))
        \<and> (\<not> blank (mermaid_code req) \<and> \<not> int (length (mermaid_code req)) > max_size cfg
             \<and> chosen_format cfg req \<in> set [''png'', ''svg'', ''pdf'']
            \<longrightarrow> map_of r ''max_attempts'' = Some (PInt (max_attempts cfg)))
        \<and> (\<not> blank (mermaid_code req) \<and> \<not> int (length (mermaid_code req)) > max_size cfg
             \<and> chosen_format cfg req \<in> set [''png'', ''svg'', ''pdf'']
             \<and> tracker_get st (fp (mermaid_code req)) < max_attempts cfg
            \<longrightarrow> map_of r ''attempt'' = Some (PInt (tracker_get st (fp (mermaid_code req)) + 1)))
        \<and> (\<not> blank (mermaid_code req) \<and> \<not> int (length (mermaid_code req)) > max_size cfg
             \<and> chosen_format cfg req \<in> set [''png'', ''svg'', ''pdf'']
             \<and> tracker_get st (fp (mermaid_code req)) < max_attempts cfg
             \<and> write_input w (''/tmp/mermaid_'' @ fp (mermaid_code req) @ ''.mmd'')
                   (mermaid_code req) = None
             \<and> (\<forall>cmd. \<exists>c. run w cmd = Inr c)
            \<longrightarrow> (\<exists>p. map_of r ''prompt'' = Some (PStr p)))
        \<and> (map_of r ''prompt'' \<noteq> None \<longrightarrow>
             (\<exists>p s a m. map_of r ''prompt'' = Some (PStr p) \<and> CHR 0x0A \<notin> set p
                \<and> map_of r ''suggestion'' = Some (PStr s)
                \<and> map_of r ''attempt'' = Some (PInt a)
                \<and> map_of r ''max_attempts'' = Some (PInt m))))
      \<or> (map_of r ''success'' = Some (PBool True)
          \<and> (\<exists>m. map_of r ''message'' = Some (PStr m) \<and> CHR 0x0A \<notin> set m))"
proof -
  let ?h = "fp (mermaid_code req)"
  let ?invalid = "blank (mermaid_code req) \<or> int (length (mermaid_code req)) > max_size cfg
           \<or> chosen_format cfg req \<notin> set [''png'', ''svg'', ''pdf'']"
  let ?wr = "write_input w (''/tmp/mermaid_'' @ ?h @ ''.mmd'') (mermaid_code req) = None"
  have ok: "response_ok r"
  proof (cases ?invalid)
    case True
    from generate_invalid [OF True, of fp w st] assms show ?thesis
      by (auto simp: response_ok_def)
  next
    case False
    then have v: "\<not> blank (mermaid_code req)" "\<not> int (length (mermaid_code req)) > max_size cfg"
      "chosen_format cfg req \<in> set [''png'', ''svg'', ''pdf'']"
      by blast+
    show ?thesis
    proof (cases "tracker_get st ?h \<ge> max_attempts cfg")
      case True
      from generate_exhausted [where fp = fp and req = req and cfg = cfg and st = st and w = w,
          OF v True] assms
      show ?thesis by (auto simp: response_ok_def)
    next
      case False
      then have b: "tracker_get st ?h < max_attempts cfg" by simp
      from assms show ?thesis
        unfolding generate_counted [where fp = fp and req = req and cfg = cfg and st = st, OF v b]
        by (rule write_and_render_response_ok [OF v(3)])
    qed
  qed
  show ?thesis
  proof (cases "map_of r ''success'' = Some (PBool True)")
    case True
    with ok show ?thesis by (auto simp: response_ok_def)
  next
    case nt: False
    with ok have f: "map_of r ''success'' = Some (PBool False)"
      and err: "\<exists>e. map_of r ''error'' = Some (PStr e)"
      and pr: "map_of r ''prompt'' \<noteq> None \<longrightarrow>
             (\<exists>p s a m. map_of r ''prompt'' = Some (PStr p) \<and> CHR 0x0A \<notin> set p
                \<and> map_of r ''suggestion'' = Some (PStr s)
                \<and> map_of r ''attempt'' = Some (PInt a)
                \<and> map_of r ''max_attempts'' = Some (PInt m))"
      unfolding response_ok_def by blast+
    have rest: "(?invalid \<or> max_attempts cfg \<le> tracker_get st ?h
             \<or> (?wr \<and> (\<forall>cmd e. run w cmd = Inl e \<longrightarrow> exn_cls e = TimeoutExpired))
            \<longrightarrow> (\<exists>s. map_of r ''suggestion'' = Some (PStr s)))
        \<and> (\<not> ?invalid \<longrightarrow> map_of r ''max_attempts'' = Some (PInt (max_attempts cfg)))
        \<and> (\<not> ?invalid \<and> tracker_get st ?h < max_attempts cfg
            \<longrightarrow> map_of r ''attempt'' = Some (PInt (tracker_get st ?h + 1)))
        \<and> (\<not> ?invalid \<and> tracker_get st ?h < max_attempts cfg \<and> ?wr
             \<and> (\<forall>cmd. \<exists>c. run w cmd = Inr c)
            \<longrightarrow> (\<exists>p. map_of r ''prompt'' = Some (PStr p)))"
    proof (cases ?invalid)
      case True
      from generate_invalid [OF True, of fp w st] assms
      have "\<exists>s. map_of r ''suggestion'' = Some (PStr s)" by auto
      with True show ?thesis by blast
    next
      case False
      then have v: "\<not> blank (mermaid_code req)" "\<not> int (length (mermaid_code req)) > max_size cfg"
        "chosen_format cfg req \<in> set [''png'', ''svg'', ''pdf'']"
        by blast+
      show ?thesis
      proof (cases "tracker_get st ?h \<ge> max_attempts cfg")
        case True
        from generate_exhausted [where fp = fp and req = req and cfg = cfg and st = st and w = w,
            OF v True] assms
        have "(\<exists>s. map_of r ''suggestion'' = Some (PStr s))
            \<and> map_of r ''max_attempts'' = Some (PInt (max_attempts cfg))"
          by auto
        with True show ?thesis by auto
      next
        case nx: False
        then have b: "tracker_get st ?h < max_attempts cfg" by simp
        let ?st1 = "st\<lparr>attempt_tracker := (attempt_tracker st)(?h \<mapsto> tracker_get st ?h + 1)\<rparr>"
        have tr: "attempt_tracker ?st1 ?h = Some (tracker_get st ?h + 1)" by simp
        from assms have wr: "fst (write_and_render cfg w (mermaid_code req) ?h (filename req)
            (chosen_format cfg req)
            (if theme req = [] then default_theme cfg else theme req)
            (if background req = [] then default_background cfg else background req)
            (if scale req \<notin> set [1, 2, 3] then 2 else scale req)
            (if \<not> (800 \<le> width req \<and> width req \<le> 3200) then 1600 else width req)
            ?st1) = Inr r"
          unfolding generate_counted [where fp = fp and req = req and cfg = cfg and st = st, OF v b] .
        from write_and_render_failure_fields [OF tr wr f] False nx
        show ?thesis by blast
      qed
    qed
    from f err rest pr show ?thesis by blast
  qed
qed

text \<open>
  The theorem at a failed render, a counted attempt with the count at 0: the response
  has the attempt number 1, the maximum 2, a suggestion and a prompt.
\<close>

theorem response_fields_witness:
  "fst (generate_mermaid_diagram demo_fingerprint demo_cfg world_failing demo_req empty_state)
     = Inr [(''success'', PBool False),
           (''error'', PStr ''Parse error on line 2''),
           (''suggestion'', PStr ''Parse error. Verify diagram type declaration (graph TD, sequenceDiagram, etc.) and node connections.''),
           (''attempt'', PInt 1),
           (''max_attempts'', PInt 2),
           (''prompt'', PStr ''Mermaid syntax error detected (attempt 1/2). Please fix the errors and try again.'')]
   \<and> map_of (projr (fst (generate_mermaid_diagram demo_fingerprint demo_cfg world_failing demo_req
          empty_state))) ''attempt''
       = Some (PInt (tracker_get empty_state (demo_fingerprint (mermaid_code demo_req)) + 1))
   \<and> map_of (projr (fst (generate_mermaid_diagram demo_fingerprint demo_cfg world_failing demo_req
          empty_state))) ''max_attempts'' = Some (PInt (max_attempts demo_cfg))
   \<and> (\<exists>s. map_of (projr (fst (generate_mermaid_diagram demo_fingerprint demo_cfg world_failing demo_req
          empty_state))) ''suggestion'' = Some (PStr s))
   \<and> (\<exists>p. map_of (projr (fst (generate_mermaid_diagram demo_fingerprint demo_cfg world_failing demo_req
            empty_state))) ''prompt'' = Some (PStr p) \<and> CHR 0x0A \<notin> set p)"
proof -
  let ?r = "projr (fst (generate_mermaid_diagram demo_fingerprint demo_cfg world_failing demo_req
          empty_state))"
  have h: "fst (generate_mermaid_diagram demo_fingerprint demo_cfg world_failing demo_req empty_state)
     = Inr [(''success'', PBool False),
           (''error'', PStr ''Parse error on line 2''),
           (''suggestion'', PStr ''Parse error. Verify diagram type declaration (graph TD, sequenceDiagram, etc.) and node connections.''),
           (''attempt'', PInt 1),
           (''max_attempts'', PInt 2),
           (''prompt'', PStr ''Mermaid syntax error detected (attempt 1/2). Please fix the errors and try again.'')]"
    by code_simp
  have h': "fst (generate_mermaid_diagram demo_fingerprint demo_cfg world_failing demo_req empty_state)
     = Inr ?r"
    unfolding h by simp
  have f: "map_of ?r ''success'' \<noteq> Some (PBool True)"
    unfolding h by simp
  have p: "map_of ?r ''prompt'' \<noteq> None"
    unfolding h by simp
  have v: "\<not> blank (mermaid_code demo_req)"
    "\<not> int (length (mermaid_code demo_req)) > max_size demo_cfg"
    "chosen_format demo_cfg demo_req \<in> set [''png'', ''svg'', ''pdf'']"
    "tracker_get empty_state (demo_fingerprint (mermaid_code demo_req)) < max_attempts demo_cfg"
    by (simp_all add: blank_def strip_def is_space_def demo_req_def demo_cfg_def chosen_format_def
          tracker_get_def empty_state_def)
  from response_fields [OF h'] f p v
  have "map_of ?r ''attempt''
       = Some (PInt (tracker_get empty_state (demo_fingerprint (mermaid_code demo_req)) + 1))
   \<and> map_of ?r ''max_attempts'' = Some (PInt (max_attempts demo_cfg))
   \<and> (\<exists>s. map_of ?r ''suggestion'' = Some (PStr s))
   \<and> (\<exists>p. map_of ?r ''prompt'' = Some (PStr p) \<and> CHR 0x0A \<notin> set p)"
    by blast
  with h show ?thesis by blast
qed

text \<open>
  C6 as stated fails at three kinds of failure: the response to an empty source text
  has no \<open>attempt\<close>, no \<open>max_attempts\<close> and no \<open>prompt\<close>; the budget-exhausted
  response has no \<open>attempt\<close> and no \<open>prompt\<close>; the timeout response has no
  \<open>prompt\<close>.
\<close>

theorem validation_failure_fields_counterexample:
  "map_of (projr (fst (generate_mermaid_diagram demo_fingerprint demo_cfg world_failing
          (demo_req\<lparr>mermaid_code := []\<rparr>) empty_state))) ''success'' = Some (PBool False)
   \<and> map_of (projr (fst (generate_mermaid_diagram demo_fingerprint demo_cfg world_failing
          (demo_req\<lparr>mermaid_code := []\<rparr>) empty_state))) ''attempt'' = None
   \<and> map_of (projr (fst (generate_mermaid_diagram demo_fingerprint demo_cfg world_failing
          (demo_req\<lparr>mermaid_code := []\<rparr>) empty_state))) ''max_attempts'' = None
   \<and> map_of (projr (fst (generate_mermaid_diagram demo_fingerprint demo_cfg world_failing
          (demo_req\<lparr>mermaid_code := []\<rparr>) empty_state))) ''prompt'' = None
   \<and> map_of (projr (fst (generate_mermaid_diagram demo_fingerprint (demo_cfg\<lparr>max_attempts := 0\<rparr>)
          world_failing demo_req empty_state))) ''success'' = Some (PBool False)
   \<and> map_of (projr (fst (generate_mermaid_diagram demo_fingerprint (demo_cfg\<lparr>max_attempts := 0\<rparr>)
          world_failing demo_req empty_state))) ''attempt'' = None
   \<and> map_of (projr (fst (generate_mermaid_diagram demo_fingerprint (demo_cfg\<lparr>max_attempts := 0\<rparr>)
          world_failing demo_req empty_state))) ''prompt'' = None
   \<and> map_of (projr (fst (generate_mermaid_diagram demo_fingerprint demo_cfg world_timeout
          demo_req empty_state))) ''success'' = Some (PBool False)
   \<and> map_of (projr (fst (generate_mermaid_diagram demo_fingerprint demo_cfg world_timeout
          demo_req empty_state))) ''prompt'' = None"
  by code_simp

lemma render_success_pops:
  assumes "fst (render cfg w cmd h inp outp fmt st) = Inr r"
    and "map_of r ''success'' = Some (PBool True)"
  shows "attempt_tracker (snd (render cfg w cmd h inp outp fmt st)) h = None"
  using assms
  by (auto simp: render_def render_try_def render_except_def Let_def
        split: sum.splits option.splits if_splits prod.splits)

lemma write_and_render_success_pops:
  assumes "fst (write_and_render cfg w code h fname fmt th bg sc wd st1) = Inr r"
    and "map_of r ''success'' = Some (PBool True)"
  shows "attempt_tracker (snd (write_and_render cfg w code h fname fmt th bg sc wd st1)) h = None"
proof (cases "mkdir w (output_dir cfg)")
  case (Some e)
  with assms(1) show ?thesis by (simp add: write_and_render_def)
next
  case mk: None
  show ?thesis
  proof (cases "write_input w (''/tmp/mermaid_'' @ h @ ''.mmd'') code")
    case (Some e)
    with mk assms show ?thesis
      by (auto simp: write_and_render_def Let_def split: sum.splits)
  next
    case None
    from assms show ?thesis
      unfolding write_and_render_ok [OF mk None]
      by (rule render_success_pops)
  qed
qed

lemma generate_success:
  assumes s: "fst (generate_mermaid_diagram fp cfg w req st) = Inr r"
    and t: "map_of r ''success'' = Some (PBool True)"
  shows "\<not> blank (mermaid_code req) \<and> \<not> int (length (mermaid_code req)) > max_size cfg
     \<and> chosen_format cfg req \<in> set [''png'', ''svg'', ''pdf'']
     \<and> tracker_get st (fp (mermaid_code req)) < max_attempts cfg
     \<and> attempt_tracker (snd (generate_mermaid_diagram fp cfg w req st)) (fp (mermaid_code req)) = None"
proof -
  let ?h = "fp (mermaid_code req)"
  have v: "\<not> (blank (mermaid_code req) \<or> int (length (mermaid_code req)) > max_size cfg
           \<or> chosen_format cfg req \<notin> set [''png'', ''svg'', ''pdf''])"
  proof
    assume a: "blank (mermaid_code req) \<or> int (length (mermaid_code req)) > max_size cfg
           \<or> chosen_format cfg req \<notin> set [''png'', ''svg'', ''pdf'']"
    from generate_invalid [OF a, of fp w st] s t show False by auto
  qed
  then have v': "\<not> blank (mermaid_code req)" "\<not> int (length (mermaid_code req)) > max_size cfg"
      "chosen_format cfg req \<in> set [''png'', ''svg'', ''pdf'']"
    by blast+
  have b: "tracker_get st ?h < max_attempts cfg"
  proof (rule ccontr)
    assume "\<not> tracker_get st ?h < max_attempts cfg"
    then have "tracker_get st ?h \<ge> max_attempts cfg" by simp
    from generate_exhausted [where fp = fp and req = req and cfg = cfg and st = st and w = w,
          OF v' this] s t
    show False by auto
  qed
  from s t have "attempt_tracker (snd (generate_mermaid_diagram fp cfg w req st)) ?h = None"
    unfolding generate_counted [where fp = fp and req = req and cfg = cfg and st = st, OF v' b]
    by (rule write_and_render_success_pops)
  with v' b show ?thesis by blast
qed

text \<open>
  C7. The ledger holds no negative count (it never does: an entry is created as 1 and
  only ever incremented). If a call returns a success response, then after it the
  ledger has no entry for the fingerprint, whatever the count was before; and a next
  call with the same source text whose render fails (the directory can be created, the
  renderer does not exit with code 0) reports attempt number 1.
\<close>

theorem success_resets_attempts:
  assumes nonneg: "0 \<le> tracker_get st (fp (mermaid_code req1))"
    and s: "fst (generate_mermaid_diagram fp cfg w1 req1 st) = Inr r1"
    and t: "map_of r1 ''success'' = Some (PBool True)"
    and same: "mermaid_code req2 = mermaid_code req1"
    and fmt2: "chosen_format cfg req2 \<in> set [''png'', ''svg'', ''pdf'']"
    and mk: "mkdir w2 (output_dir cfg) = None"
    and nosucc: "\<forall>cmd c. run w2 cmd = Inr c \<longrightarrow> returncode c \<noteq> 0"
  shows "attempt_tracker (snd (generate_mermaid_diagram fp cfg w1 req1 st)) (fp (mermaid_code req1)) = None
     \<and> (\<exists>r2. fst (generate_mermaid_diagram fp cfg w2 req2
                    (snd (generate_mermaid_diagram fp cfg w1 req1 st))) = Inr r2
           \<and> map_of r2 ''success'' = Some (PBool False)
           \<and> map_of r2 ''attempt'' = Some (PInt 1))"
proof -
  let ?h = "fp (mermaid_code req1)"
  let ?st' = "snd (generate_mermaid_diagram fp cfg w1 req1 st)"
  from generate_success [OF s t]
  have v1: "\<not> blank (mermaid_code req1)" "\<not> int (length (mermaid_code req1)) > max_size cfg"
    and b1: "tracker_get st ?h < max_attempts cfg"
    and gone: "attempt_tracker ?st' ?h = None"
    by blast+
  from nonneg b1 have pos: "0 < max_attempts cfg" by simp
  from gone have z: "tracker_get ?st' (fp (mermaid_code req2)) = 0"
    by (simp add: tracker_get_def same)
  with pos have b2: "tracker_get ?st' (fp (mermaid_code req2)) < max_attempts cfg" by simp
  from v1 same have v2: "\<not> blank (mermaid_code req2)"
      "\<not> int (length (mermaid_code req2)) > max_size cfg"
    by simp_all
  from failing_step [where fp = fp and req = req2 and cfg = cfg and w = w2 and st = ?st',
      OF v2 fmt2 b2 mk nosucc] z
  have "\<exists>r2. fst (generate_mermaid_diagram fp cfg w2 req2 ?st') = Inr r2
           \<and> map_of r2 ''success'' = Some (PBool False)
           \<and> map_of r2 ''attempt'' = Some (PInt 1)"
    by auto
  with gone show ?thesis by blast
qed

text \<open>
  The theorem with a failed attempt first, so that the count is 1 when the successful
  call starts: the failing call after the success reports attempt 1, not 2.
\<close>

theorem success_resets_attempts_witness:
  "0 \<le> tracker_get (after_calls demo_fingerprint demo_cfg worlds_failing demo_req empty_state 1)
          (demo_fingerprint (mermaid_code demo_req))
   \<and> tracker_get (after_calls demo_fingerprint demo_cfg worlds_failing demo_req empty_state 1)
          (demo_fingerprint (mermaid_code demo_req)) = 1
   \<and> fst (generate_mermaid_diagram demo_fingerprint demo_cfg world_ok_with_warning demo_req
          (after_calls demo_fingerprint demo_cfg worlds_failing demo_req empty_state 1))
       = Inr [(''success'', PBool True),
              (''message'', PStr (check_mark @ '' Generated PNG diagram (1234 bytes)'')),
              (''image_url'', PStr ''http://localhost:8401/diagrams/d.png?token=avicohen''),
              (''file_name'', PStr ''d.png''),
              (''format'', PStr ''png''),
              (''size_bytes'', PInt 1234)]
   \<and> mermaid_code (demo_req\<lparr>output_format := ''svg''\<rparr>) = mermaid_code demo_req
   \<and> chosen_format demo_cfg (demo_req\<lparr>output_format := ''svg''\<rparr>) \<in> set [''png'', ''svg'', ''pdf'']
   \<and> mkdir world_failing (output_dir demo_cfg) = None
   \<and> (\<forall>cmd. returncode (projr (run world_failing cmd)) = 1)
   \<and> attempt_tracker
        (snd (generate_mermaid_diagram demo_fingerprint demo_cfg world_ok_with_warning demo_req
          (after_calls demo_fingerprint demo_cfg worlds_failing demo_req empty_state 1)))
        (demo_fingerprint (mermaid_code demo_req)) = None
   \<and> map_of (projr (fst (generate_mermaid_diagram demo_fingerprint demo_cfg world_failing
          (demo_req\<lparr>output_format := ''svg''\<rparr>)
          (snd (generate_mermaid_diagram demo_fingerprint demo_cfg world_ok_with_warning demo_req
            (after_calls demo_fingerprint demo_cfg worlds_failing demo_req empty_state 1))))))
        ''attempt'' = Some (PInt 1)"
proof -
  let ?st = "after_calls demo_fingerprint demo_cfg worlds_failing demo_req empty_state 1"
  have c: "tracker_get ?st (demo_fingerprint (mermaid_code demo_req)) = 1"
    by code_simp
  then have h1: "0 \<le> tracker_get ?st (demo_fingerprint (mermaid_code demo_req))"
    by simp
  have h2: "fst (generate_mermaid_diagram demo_fingerprint demo_cfg world_ok_with_warning demo_req ?st)
       = Inr [(''success'', PBool True),
              (''message'', PStr (check_mark @ '' Generated PNG diagram (1234 bytes)'')),
              (''image_url'', PStr ''http://localhost:8401/diagrams/d.png?token=avicohen''),
              (''file_name'', PStr ''d.png''),
              (''format'', PStr ''png''),
              (''size_bytes'', PInt 1234)]"
    by code_simp
  have h3: "map_of [(''success'', PBool True),
              (''message'', PStr (check_mark @ '' Generated PNG diagram (1234 bytes)'')),
              (''image_url'', PStr ''http://localhost:8401/diagrams/d.png?token=avicohen''),
              (''file_name'', PStr ''d.png''),
              (''format'', PStr ''png''),
              (''size_bytes'', PInt 1234)] ''success'' = Some (PBool True)"
    by simp
  have h4: "mermaid_code (demo_req\<lparr>output_format := ''svg''\<rparr>) = mermaid_code demo_req"
    by simp
  have h5: "chosen_format demo_cfg (demo_req\<lparr>output_format := ''svg''\<rparr>) \<in> set [''png'', ''svg'', ''pdf'']"
    by (simp add: chosen_format_def)
  have h6: "mkdir world_failing (output_dir demo_cfg) = None"
    by (simp add: world_failing_def)
  have h7: "\<forall>cmd c. run world_failing cmd = Inr c \<longrightarrow> returncode c \<noteq> 0"
    by (auto simp: world_failing_def)
  from success_resets_attempts [where fp = demo_fingerprint and cfg = demo_cfg and st = ?st
      and ?w1.0 = world_ok_with_warning and ?req1.0 = demo_req
      and ?w2.0 = world_failing and ?req2.0 = "demo_req\<lparr>output_format := ''svg''\<rparr>",
      OF h1 h2 h3 h4 h5 h6 h7]
  have "attempt_tracker
        (snd (generate_mermaid_diagram demo_fingerprint demo_cfg world_ok_with_warning demo_req ?st))
        (demo_fingerprint (mermaid_code demo_req)) = None
   \<and> map_of (projr (fst (generate_mermaid_diagram demo_fingerprint demo_cfg world_failing
          (demo_req\<lparr>output_format := ''svg''\<rparr>)
          (snd (generate_mermaid_diagram demo_fingerprint demo_cfg world_ok_with_warning demo_req ?st)))))
        ''attempt'' = Some (PInt 1)"
    by auto
  moreover have "\<forall>cmd. returncode (projr (run world_failing cmd)) = 1"
    by (simp add: world_failing_def)
  ultimately show ?thesis using c h1 h2 h4 h5 h6 by blast
qed

lemma generate_scale_coerced:
  assumes "scale req \<notin> set [1, 2, 3]"
  shows "generate_mermaid_diagram fp cfg w req st
           = generate_mermaid_diagram fp cfg w (req\<lparr>scale := 2\<rparr>) st"
  using assms
  unfolding generate_mermaid_diagram_def Let_def chosen_format_def
  by (simp split del: if_split cong del: if_weak_cong)

lemma generate_width_coerced:
  assumes "\<not> (800 \<le> width req \<and> width req \<le> 3200)"
  shows "generate_mermaid_diagram fp cfg w req st
           = generate_mermaid_diagram fp cfg w (req\<lparr>width := 1600\<rparr>) st"
  using assms
  unfolding generate_mermaid_diagram_def Let_def chosen_format_def
  by (simp split del: if_split cong del: if_weak_cong)

text \<open>
  C8. A scale outside 1, 2, 3 is treated exactly as scale 2, and a width outside 800
  to 3200 exactly as width 1600: the call returns what it returns for the request with
  the default in its place, and changes the state in the same way. An output format
  other than \<open>png\<close>, \<open>svg\<close>, \<open>pdf\<close> makes the whole request a validation failure:
  three fields, \<open>success = False\<close>, and an unchanged state.
\<close>

theorem scale_width_coerced_format_rejected:
  "(scale req \<notin> set [1, 2, 3] \<longrightarrow>
      generate_mermaid_diagram fp cfg w req st
        = generate_mermaid_diagram fp cfg w (req\<lparr>scale := 2\<rparr>) st)
   \<and> (\<not> (800 \<le> width req \<and> width req \<le> 3200) \<longrightarrow>
      generate_mermaid_diagram fp cfg w req st
        = generate_mermaid_diagram fp cfg w (req\<lparr>width := 1600\<rparr>) st)
   \<and> (chosen_format cfg req \<notin> set [''png'', ''svg'', ''pdf''] \<longrightarrow>
        snd (generate_mermaid_diagram fp cfg w req st) = st
        \<and> (\<exists>e s. fst (generate_mermaid_diagram fp cfg w req st)
               = Inr [(''success'', PBool False), (''error'', PStr e), (''suggestion'', PStr s)]))"
proof (intro conjI impI)
  assume "scale req \<notin> set [1, 2, 3]"
  then show "generate_mermaid_diagram fp cfg w req st
        = generate_mermaid_diagram fp cfg w (req\<lparr>scale := 2\<rparr>) st"
    by (rule generate_scale_coerced)
next
  assume "\<not> (800 \<le> width req \<and> width req \<le> 3200)"
  then show "generate_mermaid_diagram fp cfg w req st
        = generate_mermaid_diagram fp cfg w (req\<lparr>width := 1600\<rparr>) st"
    by (rule generate_width_coerced)
next
  assume f: "chosen_format cfg req \<notin> set [''png'', ''svg'', ''pdf'']"
  then have a: "blank (mermaid_code req) \<or> int (length (mermaid_code req)) > max_size cfg
           \<or> chosen_format cfg req \<notin> set [''png'', ''svg'', ''pdf'']"
    by blast
  from generate_invalid [OF a, of fp w st]
  show "snd (generate_mermaid_diagram fp cfg w req st) = st" by blast
  from generate_invalid [OF a, of fp w st]
  show "\<exists>e s. fst (generate_mermaid_diagram fp cfg w req st)
               = Inr [(''success'', PBool False), (''error'', PStr e), (''suggestion'', PStr s)]"
    by blast
qed

text \<open>
  The theorem at scale 9 and width 10, with a renderer that succeeds only when it is
  called with \<open>-s 2 -w 1600\<close>: the call succeeds; and at the format \<open>gif\<close>.
\<close>

theorem scale_width_coerced_format_rejected_witness:
  "scale (demo_req\<lparr>scale := 9, width := 10\<rparr>) \<notin> set [1, 2, 3]
   \<and> \<not> (800 \<le> width (demo_req\<lparr>scale := 2, width := 10\<rparr>)
         \<and> width (demo_req\<lparr>scale := 2, width := 10\<rparr>) \<le> 3200)
   \<and> generate_mermaid_diagram demo_fingerprint demo_cfg world_defaults_only
        (demo_req\<lparr>scale := 9, width := 10\<rparr>) empty_state
      = generate_mermaid_diagram demo_fingerprint demo_cfg world_defaults_only
        (demo_req\<lparr>scale := 2, width := 1600\<rparr>) empty_state
   \<and> map_of (projr (fst (generate_mermaid_diagram demo_fingerprint demo_cfg world_defaults_only
        (demo_req\<lparr>scale := 9, width := 10\<rparr>) empty_state))) ''success'' = Some (PBool True)
   \<and> map_of (projr (fst (generate_mermaid_diagram demo_fingerprint demo_cfg world_defaults_only
        (demo_req\<lparr>scale := 3, width := 1600\<rparr>) empty_state))) ''success'' = Some (PBool False)
   \<and> chosen_format demo_cfg (demo_req\<lparr>output_format := ''gif''\<rparr>) \<notin> set [''png'', ''svg'', ''pdf'']
   \<and> snd (generate_mermaid_diagram demo_fingerprint demo_cfg world_defaults_only
        (demo_req\<lparr>output_format := ''gif''\<rparr>) empty_state) = empty_state
   \<and> fst (generate_mermaid_diagram demo_fingerprint demo_cfg world_defaults_only
        (demo_req\<lparr>output_format := ''gif''\<rparr>) empty_state)
      = Inr [(''success'', PBool False),
             (''error'', PStr ''Invalid output_format: gif''),
             (''suggestion'', PStr (''Use '' @ apostrophe @ ''png'' @ apostrophe @ '', ''
                @ apostrophe @ ''svg'' @ apostrophe @ '', or '' @ apostrophe @ ''pdf'' @ apostrophe))]"
proof -
  have h1: "scale (demo_req\<lparr>scale := 9, width := 10\<rparr>) \<notin> set [1, 2, 3]"
    by simp
  have h2: "\<not> (800 \<le> width (demo_req\<lparr>scale := 2, width := 10\<rparr>)
         \<and> width (demo_req\<lparr>scale := 2, width := 10\<rparr>) \<le> 3200)"
    by simp
  have h3: "chosen_format demo_cfg (demo_req\<lparr>output_format := ''gif''\<rparr>) \<notin> set [''png'', ''svg'', ''pdf'']"
    by (simp add: chosen_format_def)
  have r1: "demo_req\<lparr>scale := 9, width := 10, scale := 2\<rparr> = demo_req\<lparr>scale := 2, width := 10\<rparr>"
    by (simp add: demo_req_def)
  have r2: "demo_req\<lparr>scale := 2, width := 10, width := 1600\<rparr> = demo_req\<lparr>scale := 2, width := 1600\<rparr>"
    by (simp add: demo_req_def)
  from scale_width_coerced_format_rejected [of "demo_req\<lparr>scale := 9, width := 10\<rparr>"
      demo_fingerprint demo_cfg world_defaults_only empty_state] h1
  have e1: "generate_mermaid_diagram demo_fingerprint demo_cfg world_defaults_only
        (demo_req\<lparr>scale := 9, width := 10\<rparr>) empty_state
      = generate_mermaid_diagram demo_fingerprint demo_cfg world_defaults_only
        (demo_req\<lparr>scale := 2, width := 10\<rparr>) empty_state"
    by (simp add: r1)
  from scale_width_coerced_format_rejected [of "demo_req\<lparr>scale := 2, width := 10\<rparr>"
      demo_fingerprint demo_cfg world_defaults_only empty_state] h2
  have e2: "generate_mermaid_diagram demo_fingerprint demo_cfg world_defaults_only
        (demo_req\<lparr>scale := 2, width := 10\<rparr>) empty_state
      = generate_mermaid_diagram demo_fingerprint demo_cfg world_defaults_only
        (demo_req\<lparr>scale := 2, width := 1600\<rparr>) empty_state"
    by (simp add: r2)
  from scale_width_coerced_format_rejected [of "demo_req\<lparr>output_format := ''gif''\<rparr>"
      demo_fingerprint demo_cfg world_defaults_only empty_state] h3
  have e3: "snd (generate_mermaid_diagram demo_fingerprint demo_cfg world_defaults_only
        (demo_req\<lparr>output_format := ''gif''\<rparr>) empty_state) = empty_state"
    by blast
  have v1: "map_of (projr (fst (generate_mermaid_diagram demo_fingerprint demo_cfg world_defaults_only
        (demo_req\<lparr>scale := 9, width := 10\<rparr>) empty_state))) ''success'' = Some (PBool True)"
    by code_simp
  have v2: "map_of (projr (fst (generate_mermaid_diagram demo_fingerprint demo_cfg world_defaults_only
        (demo_req\<lparr>scale := 3, width := 1600\<rparr>) empty_state))) ''success'' = Some (PBool False)"
    by code_simp
  have v3: "fst (generate_mermaid_diagram demo_fingerprint demo_cfg world_defaults_only
        (demo_req\<lparr>output_format := ''gif''\<rparr>) empty_state)
      = Inr [(''success'', PBool False),
             (''error'', PStr ''Invalid output_format: gif''),
             (''suggestion'', PStr (''Use '' @ apostrophe @ ''png'' @ apostrophe @ '', ''
                @ apostrophe @ ''svg'' @ apostrophe @ '', or '' @ apostrophe @ ''pdf'' @ apostrophe))]"
    by code_simp
  from e1 e2 have e: "generate_mermaid_diagram demo_fingerprint demo_cfg world_defaults_only
        (demo_req\<lparr>scale := 9, width := 10\<rparr>) empty_state
      = generate_mermaid_diagram demo_fingerprint demo_cfg world_defaults_only
        (demo_req\<lparr>scale := 2, width := 1600\<rparr>) empty_state"
    by simp
  from h1 h2 h3 e e3 v1 v2 v3 show ?thesis by blast
qed

section \<open>The counts in the ledger\<close>

text \<open>
  A call only ever removes the entry of its fingerprint or sets it to one more than a
  count read before, and a missing entry reads as 0. So if every count in the ledger is
  at least 1 before a call, every count is at least 1 after it; the ledger of a fresh
  process is empty.
\<close>

lemma render_tracker:
  "attempt_tracker (snd (render cfg w cmd h inp outp fmt st)) k = Some n
     \<Longrightarrow> attempt_tracker st k = Some n"
  by (auto simp: render_def render_try_def render_except_def Let_def
        split: sum.splits option.splits if_splits prod.splits)

lemma write_and_render_tracker:
  assumes "attempt_tracker (snd (write_and_render cfg w code h fname fmt th bg sc wd st1)) k = Some n"
  shows "attempt_tracker st1 k = Some n"
proof (cases "mkdir w (output_dir cfg)")
  case (Some e)
  with assms show ?thesis by (simp add: write_and_render_def)
next
  case mk: None
  show ?thesis
  proof (cases "write_input w (''/tmp/mermaid_'' @ h @ ''.mmd'') code")
    case (Some e)
    with mk assms show ?thesis
      by (auto simp: write_and_render_def Let_def split: sum.splits)
  next
    case None
    from assms have "attempt_tracker (case write_puppeteer w of
          None \<Rightarrow> st1\<lparr>files := (files st1)(''/tmp/mermaid_'' @ h @ ''.mmd'' \<mapsto> code,
                                             puppeteer_path \<mapsto> puppeteer_config_json)\<rparr>
        | Some e \<Rightarrow> st1\<lparr>files := (files st1)(''/tmp/mermaid_'' @ h @ ''.mmd'' \<mapsto> code)\<rparr>) k = Some n"
      unfolding write_and_render_ok [OF mk None]
      by (rule render_tracker)
    then show ?thesis by (simp split: option.splits)
  qed
qed

lemma ledger_counts_stay_positive:
  assumes inv: "\<forall>k n. attempt_tracker st k = Some n \<longrightarrow> 1 \<le> n"
  shows "\<forall>k n. attempt_tracker (snd (generate_mermaid_diagram fp cfg w req st)) k = Some n \<longrightarrow> 1 \<le> n"
proof (intro allI impI)
  fix k n
  let ?h = "fp (mermaid_code req)"
  assume a: "attempt_tracker (snd (generate_mermaid_diagram fp cfg w req st)) k = Some n"
  have nn: "0 \<le> tracker_get st ?h"
  proof (cases "attempt_tracker st ?h")
    case None
    then show ?thesis by (simp add: tracker_get_def)
  next
    case (Some m)
    with inv have "1 \<le> m" by blast
    with Some show ?thesis by (simp add: tracker_get_def)
  qed
  show "1 \<le> n"
  proof (cases "blank (mermaid_code req) \<or> int (length (mermaid_code req)) > max_size cfg
           \<or> chosen_format cfg req \<notin> set [''png'', ''svg'', ''pdf'']")
    case True
    from generate_invalid [OF True, of fp w st] a inv show ?thesis by auto
  next
    case False
    then have v: "\<not> blank (mermaid_code req)" "\<not> int (length (mermaid_code req)) > max_size cfg"
      "chosen_format cfg req \<in> set [''png'', ''svg'', ''pdf'']"
      by blast+
    show ?thesis
    proof (cases "tracker_get st ?h \<ge> max_attempts cfg")
      case True
      from generate_exhausted [where fp = fp and req = req and cfg = cfg and st = st and w = w,
          OF v True] a inv
      show ?thesis by (auto split: if_splits)
    next
      case False
      then have b: "tracker_get st ?h < max_attempts cfg" by simp
      from a have "attempt_tracker (st\<lparr>attempt_tracker := (attempt_tracker st)
             (?h \<mapsto> tracker_get st ?h + 1)\<rparr>) k = Some n"
        unfolding generate_counted [where fp = fp and req = req and cfg = cfg and st = st, OF v b]
        by (rule write_and_render_tracker)
      with inv nn show ?thesis by (auto split: if_splits)
    qed
  qed
qed

end
